theory Spec2Isabelle
  imports Main "HOL-Library.Word"
begin

unbundle bit_operations_syntax

section \<open>Shared types\<close>

type_synonym byte = "8 word"
type_synonym uint16 = "16 word"

text \<open>
  Go error values. \<open>Io_error\<close> stands for whatever error the operating system reports on a
  file read or write; \<open>Err_syntax\<close>, \<open>Err_range\<close>, \<open>Err_base\<close> and \<open>Err_bit_size\<close> are
  the errors of \<^verbatim>\<open>strconv.ParseUint\<close> (each carries the string parsed); \<open>Prompt_error\<close> is
  the error of \<^verbatim>\<open>liner.Prompt\<close> when no line can be read; \<open>Unmapped_address\<close> is the bus's
  error for an address no device is attached at; the others are the errors built with
  \<^verbatim>\<open>fmt.Errorf\<close> in this repository.
\<close>

datatype error =
    Io_error string
  | Err_syntax string
  | Err_range string
  | Multiple_addresses string "uint16 list"
  | Invalid_register
  | Invalid_ram_size uint16
  | Prompt_error
  | Err_base string int
  | Err_bit_size string int
  | Unmapped_address uint16

text \<open>
  A Go panic ends the goroutine (and, unrecovered, the process). Nothing in this repository
  recovers, so a panic is a final result of the model.
\<close>

datatype panic =
    Panic_error error
  | Panic_message string
  | Index_out_of_range
  | Nil_dereference

section \<open>The serial controller (package acia6551)\<close>

subsection \<open>The peripheral interface\<close>

text \<open>
  \<^verbatim>\<open>SerialPeripheral\<close> is a Go interface. An interface value is a method table together with
  the object the methods act on; the model keeps both: the methods as a record of functions
  over the object's state \<open>'p\<close>, each returning the state after the call. The fourth
  method, \<^verbatim>\<open>Shutdown\<close>, only closes the peripheral's files and is left out.
\<close>

record 'p SerialPeripheral =
  Capabilities :: "'p \<Rightarrow> int"
  Read :: "'p \<Rightarrow> (bool \<times> byte \<times> error option) \<times> 'p"
  Write :: "'p \<Rightarrow> byte \<Rightarrow> (bool \<times> error option) \<times> 'p"

text \<open>
  The capability bits. The source's \<^verbatim>\<open>Read\<close> and \<^verbatim>\<open>Write\<close> are \<open>Read_cap\<close> and \<open>Write_cap\<close>
  here, \<open>Read\<close> and \<open>Write\<close> being the methods above.
\<close>

definition Nop :: int where "Nop = 0"
definition Read_cap :: int where "Read_cap = push_bit 0 1"
definition Write_cap :: int where "Write_cap = push_bit 1 1"
definition BiDirectional :: int where "BiDirectional = Read_cap OR Write_cap"

subsection \<open>The controller\<close>

record 'p Acia6551 =
  rx :: byte
  tx :: byte
  commandData :: byte
  controlData :: byte
  rxFull :: bool
  txEmpty :: bool
  rxIrqEnabled :: bool
  txIrqEnabled :: bool
  overrun :: bool
  peripheral :: "('p SerialPeripheral \<times> 'p) option"
  capabilities :: int

definition aciaData :: uint16 where "aciaData = 0"
definition aciaStatus :: uint16 where "aciaStatus = 1"
definition aciaCommand :: uint16 where "aciaCommand = 2"
definition aciaControl :: uint16 where "aciaControl = 3"

text \<open>\<^verbatim>\<open>NewAcia6551\<close>: every field is Go's zero value but the peripheral and its capabilities.\<close>

definition NewAcia6551 :: "('p SerialPeripheral \<times> 'p) option \<Rightarrow> 'p Acia6551" where
  "NewAcia6551 o_Peripheral =
     \<lparr> rx = 0, tx = 0, commandData = 0, controlData = 0,
       rxFull = False, txEmpty = False, rxIrqEnabled = False, txIrqEnabled = False,
       overrun = False,
       peripheral = o_Peripheral,
       capabilities = (case o_Peripheral of None \<Rightarrow> 0 | Some (m, p) \<Rightarrow> Capabilities m p) \<rparr>"

definition setControl :: "byte \<Rightarrow> 'p Acia6551 \<Rightarrow> 'p Acia6551" where
  "setControl data a = a\<lparr>controlData := data\<rparr>"

definition setCommand :: "byte \<Rightarrow> 'p Acia6551 \<Rightarrow> 'p Acia6551" where
  "setCommand data a =
     a\<lparr> commandData := data,
        rxIrqEnabled := (data AND 0x02) \<noteq> 0,
        txIrqEnabled := ((data AND 0x04) \<noteq> 0) \<and> ((data AND 0x08) \<noteq> 1) \<rparr>"

definition Reset :: "'p Acia6551 \<Rightarrow> 'p Acia6551" where
  "Reset a =
     setCommand 0 (setControl 0
       (a\<lparr> rx := 0, rxFull := False,
           tx := 0, txEmpty := True,
           rxIrqEnabled := False, txIrqEnabled := False,
           overrun := False \<rparr>))"

definition statusRegister :: "'p Acia6551 \<Rightarrow> byte" where
  "statusRegister a =
     (let status = 0;
          status = (if rxFull a then status OR 0x08 else status);
          status = (if txEmpty a then status OR 0x10 else status);
          status = (if overrun a then status OR 0x04 else status)
      in status)"

text \<open>
  \<^verbatim>\<open>rxRead\<close> and \<^verbatim>\<open>txWrite\<close> call a method of \<^verbatim>\<open>a.peripheral\<close>; on a nil interface that
  is a nil dereference, which Go turns into a panic. The error a peripheral returns is
  dropped by \<^verbatim>\<open>rxRead\<close> (its \<^verbatim>\<open>if err != nil\<close> has an empty body).
\<close>

definition rxRead :: "'p Acia6551 \<Rightarrow> panic + (byte \<times> 'p Acia6551)" where
  "rxRead a =
     (if \<not> rxFull a \<and> (capabilities a AND Read_cap) = Read_cap then
        (case peripheral a of
           None \<Rightarrow> Inl Nil_dereference
         | Some (m, p) \<Rightarrow>
             (case Read m p of
                ((read, data, err), p') \<Rightarrow>
                  let a1 = a\<lparr>peripheral := Some (m, p')\<rparr>;
                      a2 = (if read then a1\<lparr>rx := data\<rparr> else a1);
                      a3 = a2\<lparr>overrun := False, rxFull := False\<rparr>
                  in Inr (rx a3, a3)))
      else
        (let a3 = a\<lparr>overrun := False, rxFull := False\<rparr> in Inr (rx a3, a3)))"

definition txWrite :: "byte \<Rightarrow> 'p Acia6551 \<Rightarrow> panic + 'p Acia6551" where
  "txWrite data a =
     (if (capabilities a AND Write_cap) = Write_cap then
        (case peripheral a of
           None \<Rightarrow> Inl Nil_dereference
         | Some (m, p) \<Rightarrow>
             (case Write m p data of
                ((written, err), p') \<Rightarrow>
                  Inr (a\<lparr> peripheral := Some (m, p'),
                          tx := data,
                          txEmpty := (written \<or> err \<noteq> None) \<rparr>)))
      else Inr a)"

text \<open>
  \<^verbatim>\<open>Read\<close> and \<^verbatim>\<open>Write\<close> of the controller, the memory-mapped entry points. \<^verbatim>\<open>Read\<close>
  panics on an address that is none of the four registers; \<^verbatim>\<open>Write\<close> has no default
  case and does nothing there.
\<close>

definition Acia6551_Read :: "'p Acia6551 \<Rightarrow> uint16 \<Rightarrow> panic + (byte \<times> 'p Acia6551)" where
  "Acia6551_Read a address =
     (if address = aciaData then rxRead a
      else if address = aciaStatus then Inr (statusRegister a, a)
      else if address = aciaCommand then Inr (commandData a, a)
      else if address = aciaControl then Inr (controlData a, a)
      else Inl (Panic_message ''read not handled by Acia6551''))"

definition Acia6551_Write :: "'p Acia6551 \<Rightarrow> uint16 \<Rightarrow> byte \<Rightarrow> panic + 'p Acia6551" where
  "Acia6551_Write a address data =
     (if address = aciaData then txWrite data a
      else if address = aciaStatus then Inr (Reset a)
      else if address = aciaCommand then Inr (setCommand data a)
      else if address = aciaControl then Inr (setControl data a)
      else Inr a)"

text \<open>
  What \<^verbatim>\<open>NewAcia6551\<close> establishes and no method changes: a controller without a
  peripheral has no capability bit set.
\<close>

definition acia_attached :: "'p Acia6551 \<Rightarrow> bool" where
  "acia_attached a = (peripheral a \<noteq> None \<or> capabilities a = 0)"

subsection \<open>The terminal peripheral\<close>

text \<open>
  A \<^verbatim>\<open>Terminal\<close> holds two \<^verbatim>\<open>*os.File\<close>, either of which may be nil. What the operating
  system answers is not in the source; a file is modelled by the answers it will give: the
  results \<open>(n, b, err)\<close> of the one-byte reads to come (\<open>b\<close> the byte left in the buffer)
  and the results \<open>(n, err)\<close> of the one-byte writes to come, together with the bytes written
  so far. When the answers run out a read reports end of file and a write succeeds.
\<close>

record File =
  reads :: "(nat \<times> byte \<times> error option) list"
  writes :: "(nat \<times> error option) list"
  written :: "byte list"

definition File_Read :: "File \<Rightarrow> (nat \<times> byte \<times> error option) \<times> File" where
  "File_Read f =
     (case reads f of
        [] \<Rightarrow> ((0, 0, Some (Io_error ''EOF'')), f)
      | r # rs \<Rightarrow> (r, f\<lparr>reads := rs\<rparr>))"

definition File_Write :: "File \<Rightarrow> byte \<Rightarrow> (nat \<times> error option) \<times> File" where
  "File_Write f b =
     (case writes f of
        [] \<Rightarrow> ((1, None), f\<lparr>written := written f @ [b]\<rparr>)
      | (n, err) # ws \<Rightarrow>
          ((n, err), f\<lparr>writes := ws,
                         written := (if n = 1 then written f @ [b] else written f)\<rparr>))"

record Terminal =
  console :: bool
  t_in :: "File option"
  t_out :: "File option"

definition Terminal_Capabilities :: "Terminal \<Rightarrow> int" where
  "Terminal_Capabilities t =
     (if t_in t \<noteq> None \<and> t_out t \<noteq> None then BiDirectional
      else if t_in t \<noteq> None then Read_cap
      else if t_out t \<noteq> None then Write_cap
      else Nop)"

definition Terminal_Read :: "Terminal \<Rightarrow> (bool \<times> byte \<times> error option) \<times> Terminal" where
  "Terminal_Read t =
     (case t_in t of
        None \<Rightarrow> ((False, 0, None), t)
      | Some f \<Rightarrow>
          (case File_Read f of
             ((n, b, err), f') \<Rightarrow>
               if err \<noteq> None then ((False, 0, err), t\<lparr>t_in := Some f'\<rparr>)
               else ((n = 1, b, None), t\<lparr>t_in := Some f'\<rparr>)))"

definition Terminal_Write :: "Terminal \<Rightarrow> byte \<Rightarrow> (bool \<times> error option) \<times> Terminal" where
  "Terminal_Write t b =
     (case t_out t of
        None \<Rightarrow> ((False, None), t)
      | Some f \<Rightarrow>
          (case File_Write f b of
             ((n, err), f') \<Rightarrow> ((n = 1, err), t\<lparr>t_out := Some f'\<rparr>)))"

definition Terminal_methods :: "Terminal SerialPeripheral" where
  "Terminal_methods =
     \<lparr> Capabilities = Terminal_Capabilities, Read = Terminal_Read, Write = Terminal_Write \<rparr>"

definition NewTerminal :: "File option \<Rightarrow> File option \<Rightarrow> Terminal" where
  "NewTerminal inp outp = \<lparr> console = False, t_in = inp, t_out = outp \<rparr>"

text \<open>
  Two terminals, and the controllers they are attached to, used as concrete inputs below:
  one whose input file holds the byte \<open>0x41\<close> and whose output file accepts what is written,
  and one with an output file only, whose first write fails.
\<close>

definition example_terminal :: Terminal where
  "example_terminal =
     NewTerminal (Some \<lparr>reads = [(1, 0x41, None)], writes = [], written = []\<rparr>)
                 (Some \<lparr>reads = [], writes = [], written = []\<rparr>)"

definition example_acia :: "Terminal Acia6551" where
  "example_acia = NewAcia6551 (Some (Terminal_methods, example_terminal))"

definition example_failing_terminal :: Terminal where
  "example_failing_terminal =
     NewTerminal None
       (Some \<lparr>reads = [], writes = [(0, Some (Io_error ''EIO''))], written = []\<rparr>)"

definition example_failing_acia :: "Terminal Acia6551" where
  "example_failing_acia = NewAcia6551 (Some (Terminal_methods, example_failing_terminal))"

section \<open>Library functions the debugger calls\<close>

text \<open>
  The debugger uses \<^verbatim>\<open>strings.Fields\<close>, \<^verbatim>\<open>strings.ToLower\<close>, \<^verbatim>\<open>strings.ToUpper\<close>,
  \<^verbatim>\<open>strings.Replace\<close> and \<^verbatim>\<open>strconv.ParseUint\<close> of Go's standard library. A Go string is a
  sequence of bytes, here a \<open>string\<close>. The first three are modelled on ASCII text: the
  white space is the six ASCII space characters and the letters are \<open>A\<close> to \<open>Z\<close> and \<open>a\<close> to
  \<open>z\<close>. On a line with bytes beyond ASCII Go's functions do more (they split at Unicode
  white space such as U+00A0 and fold Unicode letters, U+212A to \<open>k\<close>), which the model does
  not follow; the properties below are stated on the command read, not on how the line was
  split. \<^verbatim>\<open>Replace\<close> and \<^verbatim>\<open>ParseUint\<close> work on bytes in Go as well.
\<close>

definition isSpace :: "char \<Rightarrow> bool" where
  "isSpace c = ((of_char c :: nat) \<in> {9, 10, 11, 12, 13, 32})"

fun fields_from :: "string \<Rightarrow> string \<Rightarrow> string list" where
  "fields_from cur [] = (if cur = [] then [] else [cur])"
| "fields_from cur (c # cs) =
     (if isSpace c then (if cur = [] then fields_from [] cs else cur # fields_from [] cs)
      else fields_from (cur @ [c]) cs)"

definition Fields :: "string \<Rightarrow> string list" where
  "Fields s = fields_from [] s"

definition ToLower :: "string \<Rightarrow> string" where
  "ToLower s =
     map (\<lambda>c. let n = (of_char c :: nat) in
                if 65 \<le> n \<and> n \<le> 90 then char_of (n + 32) else c) s"

definition ToUpper :: "string \<Rightarrow> string" where
  "ToUpper s =
     map (\<lambda>c. let n = (of_char c :: nat) in
                if 97 \<le> n \<and> n \<le> 122 then char_of (n - 32) else c) s"

text \<open>\<^verbatim>\<open>strings.Replace(s, old, new, 1)\<close> for a one-byte \<^verbatim>\<open>old\<close>: the first occurrence only.\<close>

fun Replace_1 :: "string \<Rightarrow> char \<Rightarrow> string \<Rightarrow> string" where
  "Replace_1 [] old new = []"
| "Replace_1 (c # cs) old new = (if c = old then new @ cs else c # Replace_1 cs old new)"

text \<open>
  \<^verbatim>\<open>strconv.ParseUint(s, base, bitSize)\<close>, as in Go 1.13 and later, over the bytes of the
  string. The result is a \<^verbatim>\<open>uint64\<close> and an error. With base 0 the base comes from the
  prefix (\<open>0b\<close>, \<open>0o\<close>, \<open>0x\<close>, a lone leading \<open>0\<close> for octal, else decimal) and underscores
  may separate digits; a bit size of 0 stands for \<^verbatim>\<open>IntSize\<close>, 64 on a 64-bit platform.
  \<open>lower\<close> is the library's \<^verbatim>\<open>c | ('x' - 'X')\<close>.
  Byte codes: \<open>0x30\<close> to \<open>0x39\<close> are the digits, \<open>0x61\<close> to \<open>0x7A\<close> the lower-case letters,
  \<open>0x5F\<close> the underscore, \<open>0x2B\<close> and \<open>0x2D\<close> the signs, \<open>0x62\<close>, \<open>0x6F\<close>, \<open>0x78\<close> the
  letters b, o, x, and \<open>0x5E\<close>, \<open>0x21\<close> the marks \<open>^\<close> and \<open>!\<close> of \<^verbatim>\<open>underscoreOK\<close>.
\<close>

definition lower :: "byte \<Rightarrow> byte" where
  "lower c = c OR (0x78 - 0x58)"

fun underscoreOK_loop :: "bool \<Rightarrow> byte \<Rightarrow> byte list \<Rightarrow> bool" where
  "underscoreOK_loop hex saw [] = (saw \<noteq> 0x5F)"
| "underscoreOK_loop hex saw (c # cs) =
     (if (0x30 \<le> c \<and> c \<le> 0x39) \<or> (hex \<and> 0x61 \<le> lower c \<and> lower c \<le> 0x66)
        then underscoreOK_loop hex 0x30 cs
      else if c = 0x5F
        then (if saw \<noteq> 0x30 then False else underscoreOK_loop hex 0x5F cs)
      else if saw = 0x5F then False
      else underscoreOK_loop hex 0x21 cs)"

definition underscoreOK :: "byte list \<Rightarrow> bool" where
  "underscoreOK s0 =
     (let s = (case s0 of [] \<Rightarrow> s0
                        | c # cs \<Rightarrow> if c = 0x2D \<or> c = 0x2B then cs else s0)
      in case s of
           c0 # c1 # cs \<Rightarrow>
             if c0 = 0x30 \<and> (lower c1 = 0x62 \<or> lower c1 = 0x6F \<or> lower c1 = 0x78)
               then underscoreOK_loop (lower c1 = 0x78) 0x30 cs
             else underscoreOK_loop False 0x5E s
         | _ \<Rightarrow> underscoreOK_loop False 0x5E s)"

fun base_prefix :: "byte list \<Rightarrow> int \<times> byte list" where
  "base_prefix (c0 # c1 # c2 # cs) =
     (if c0 = 0x30 then
        (if lower c1 = 0x62 then (2, c2 # cs)
         else if lower c1 = 0x6F then (8, c2 # cs)
         else if lower c1 = 0x78 then (16, c2 # cs)
         else (8, c1 # c2 # cs))
      else (10, c0 # c1 # c2 # cs))"
| "base_prefix (c0 # cs) = (if c0 = 0x30 then (8, cs) else (10, c0 # cs))"
| "base_prefix [] = (10, [])"

text \<open>
  The digit loop of \<^verbatim>\<open>ParseUint\<close>: \<open>str\<close> is the string as given (for the error), \<open>n\<close> the
  value so far and \<open>underscores\<close> whether an underscore was skipped.
\<close>

fun digits_loop ::
  "string \<Rightarrow> bool \<Rightarrow> int \<Rightarrow> 64 word \<Rightarrow> 64 word \<Rightarrow> byte list \<Rightarrow> 64 word \<Rightarrow> bool
     \<Rightarrow> 64 word \<times> error option" where
  "digits_loop str base0 base cutoff maxVal [] n underscores =
     (if underscores \<and> \<not> underscoreOK (map of_char str) then (0, Some (Err_syntax str))
      else (n, None))"
| "digits_loop str base0 base cutoff maxVal (c # cs) n underscores =
     (if c = 0x5F \<and> base0 then digits_loop str base0 base cutoff maxVal cs n True
      else
        (case (if 0x30 \<le> c \<and> c \<le> 0x39 then Some (c - 0x30)
               else if 0x61 \<le> lower c \<and> lower c \<le> 0x7A then Some (lower c - 0x61 + 10)
               else None) of
           None \<Rightarrow> (0, Some (Err_syntax str))
         | Some d \<Rightarrow>
             if d \<ge> (word_of_int base :: byte) then (0, Some (Err_syntax str))
             else if n \<ge> cutoff then (maxVal, Some (Err_range str))
             else
               (let n' = n * word_of_int base;
                    n1 = n' + ucast d
                in if n1 < n' \<or> n1 > maxVal then (maxVal, Some (Err_range str))
                   else digits_loop str base0 base cutoff maxVal cs n1 underscores)))"

definition maxUint64 :: "64 word" where
  "maxUint64 = push_bit 64 1 - 1"

definition ParseUint :: "string \<Rightarrow> int \<Rightarrow> int \<Rightarrow> 64 word \<times> error option" where
  "ParseUint str base bitSize =
     (if str = [] then (0, Some (Err_syntax str))
      else
        (case (if 2 \<le> base \<and> base \<le> 36 then Some (base, map of_char str)
               else if base = 0 then Some (base_prefix (map of_char str))
               else None) of
           None \<Rightarrow> (0, Some (Err_base str base))
         | Some (b, s) \<Rightarrow>
             if bitSize < 0 \<or> bitSize > 64 then (0, Some (Err_bit_size str bitSize))
             else
               (let bits = (if bitSize = 0 then 64 else bitSize);
                    cutoff = maxUint64 div word_of_int b + 1;
                    maxVal = push_bit (nat bits) 1 - 1
                in digits_loop str (base = 0) b cutoff maxVal s 0 False)))"

section \<open>The debugger (package debugger)\<close>

subsection \<open>What the debugger sees of the CPU\<close>

text \<open>
  Modelled from the spec: packages \<^verbatim>\<open>cpu\<close> and \<^verbatim>\<open>bus\<close> are not among the sources. Of the CPU
  the debugger reads the registers (\<open>PC\<close> 16 bits, the others 8 bits), reads the bus and
  sends on the halt channel. A bus read finds the device bound at the address and returns
  its byte; an address without a binding is fatal (here \<open>None\<close>, which the read turns into a
  panic). \<open>ExitChan\<close> holds the values sent so far. Of an instruction the debugger uses the
  mnemonic, the length in bytes (a Go integer, converted with \<^verbatim>\<open>uint16(in.Bytes)\<close>), the
  16-bit operand and whether the addressing mode is absolute.
\<close>

record Cpu =
  PC :: uint16
  AC :: byte
  X :: byte
  Y :: byte
  SP :: byte
  SR :: byte
  Bus :: "uint16 \<Rightarrow> byte option"
  ExitChan :: "int list"

record Instruction =
  Name :: string
  Bytes :: int
  Op16 :: uint16
  IsAbsolute :: bool

text \<open>
  Modelled from the spec: the type \<^verbatim>\<open>debugSymbols\<close> and its methods \<^verbatim>\<open>labelsFor\<close> and
  \<^verbatim>\<open>addressesFor\<close> are not among the sources. The symbol table maps an address to its
  labels and a label to its addresses; it is represented by these two lookups.
\<close>

record debugSymbols =
  labelsFor :: "uint16 \<Rightarrow> string list"
  addressesFor :: "string \<Rightarrow> uint16 list"

subsection \<open>Debugger state\<close>

definition debugCmdNone :: int where "debugCmdNone = 0"
definition debugCmdBreakAddress :: int where "debugCmdBreakAddress = 1"
definition debugCmdBreakInstruction :: int where "debugCmdBreakInstruction = 2"
definition debugCmdBreakRegister :: int where "debugCmdBreakRegister = 3"
definition debugCmdContinue :: int where "debugCmdContinue = 4"
definition debugCmdExit :: int where "debugCmdExit = 5"
definition debugCmdHelp :: int where "debugCmdHelp = 6"
definition debugCmdInvalid :: int where "debugCmdInvalid = 7"
definition debugCmdNext :: int where "debugCmdNext = 8"
definition debugCmdRead :: int where "debugCmdRead = 9"
definition debugCmdRead16 :: int where "debugCmdRead16 = 10"
definition debugCmdRead32 :: int where "debugCmdRead32 = 11"
definition debugCmdStep :: int where "debugCmdStep = 12"

lemmas debugCmd_defs =
  debugCmdNone_def debugCmdBreakAddress_def debugCmdBreakInstruction_def
  debugCmdBreakRegister_def debugCmdContinue_def debugCmdExit_def debugCmdHelp_def
  debugCmdInvalid_def debugCmdNext_def debugCmdRead_def debugCmdRead16_def
  debugCmdRead32_def debugCmdStep_def

record cmd =
  cmd_id :: int
  cmd_input :: string
  cmd_arguments :: "string list"

text \<open>
  What the debugger prints, one value for each \<^verbatim>\<open>fmt.Print\<close> call of the source, with the
  values formatted into the line: the prompt (\<open>PC\<close> and its labels), the echo of a queued
  command, the three breakpoint notices, the CPU state, the upcoming instruction with the
  labels of its operand, the answers of the commands.
\<close>

datatype printed =
    Prompt uint16 "string list"
  | Echo string
  | Breakpoint_for_register string byte
  | Breakpoint_for_instruction string
  | Breakpoint_for_address uint16
  | Print_cpu uint16 byte byte byte byte byte
  | Print_next Instruction "string list"
  | Invalid_command
  | Help
  | Read_result uint16 byte
  | Read16_result uint16 uint16 uint16
  | Read32_result uint16 uint16 "32 word"
  | Break_address_set uint16
  | Breakpoint_set string byte

text \<open>
  The debugger. \<open>cpu\<close> is the CPU the debugger points to. \<open>liner\<close> is the line editor, seen
  as the lines the user will still type: \<^verbatim>\<open>Prompt\<close> returns the next one, or an error when
  there is none (end of input). \<open>stdout\<close> collects what is printed.
\<close>

record Debugger =
  symbols :: debugSymbols
  inputQueue :: "string list"
  cpu :: Cpu
  liner :: "string list"
  lastCmd :: "cmd option"
  run :: bool
  breakAddress :: bool
  breakAddressValue :: uint16
  breakInstruction :: string
  breakRegA :: bool
  breakRegAValue :: byte
  breakRegX :: bool
  breakRegXValue :: byte
  breakRegY :: bool
  breakRegYValue :: byte
  stdout :: "printed list"

definition NewDebugger :: "Cpu \<Rightarrow> debugSymbols \<Rightarrow> string list \<Rightarrow> Debugger" where
  "NewDebugger c syms typed =
     \<lparr> symbols = syms, inputQueue = [], cpu = c, liner = typed, lastCmd = None,
       run = False, breakAddress = False, breakAddressValue = 0, breakInstruction = [],
       breakRegA = False, breakRegAValue = 0, breakRegX = False, breakRegXValue = 0,
       breakRegY = False, breakRegYValue = 0, stdout = [] \<rparr>"

definition QueueCommands :: "string list \<Rightarrow> Debugger \<Rightarrow> Debugger" where
  "QueueCommands cmds d = d\<lparr>inputQueue := inputQueue d @ cmds\<rparr>"

definition println :: "printed \<Rightarrow> Debugger \<Rightarrow> Debugger" where
  "println line d = d\<lparr>stdout := stdout d @ [line]\<rparr>"

subsection \<open>Breakpoints\<close>

definition checkRegBreakpoint :: "string \<Rightarrow> bool \<Rightarrow> byte \<Rightarrow> byte \<Rightarrow> Debugger \<Rightarrow> Debugger" where
  "checkRegBreakpoint regStr on expect actual d =
     (if on \<and> actual = expect
        then (println (Breakpoint_for_register regStr expect) d)\<lparr>run := False\<rparr>
      else d)"

definition doBreakpoints :: "Instruction \<Rightarrow> Debugger \<Rightarrow> Debugger" where
  "doBreakpoints inst d =
     (let inName = Name inst;
          d = (if inName = breakInstruction d
                 then (println (Breakpoint_for_instruction inName) d)\<lparr>run := False\<rparr>
               else d);
          d = (if breakAddress d \<and> PC (cpu d) = breakAddressValue d
                 then (println (Breakpoint_for_address (breakAddressValue d)) d)\<lparr>run := False\<rparr>
               else d);
          d = checkRegBreakpoint ''A'' (breakRegA d) (breakRegAValue d) (AC (cpu d)) d;
          d = checkRegBreakpoint ''X'' (breakRegX d) (breakRegXValue d) (X (cpu d)) d;
          d = checkRegBreakpoint ''Y'' (breakRegY d) (breakRegYValue d) (Y (cpu d)) d
      in d)"

subsection \<open>Parsing numbers and addresses\<close>

text \<open>Both return Go's pair of a value and an error; the value counts only without error.\<close>

definition parseUint8 :: "Debugger \<Rightarrow> string \<Rightarrow> byte \<times> error option" where
  "parseUint8 d s =
     (let s = Replace_1 s CHR ''$'' ''0x'';
          (result, err) = ParseUint s 0 8
      in (ucast result, err))"

definition parseUint16 :: "Debugger \<Rightarrow> string \<Rightarrow> uint16 \<times> error option" where
  "parseUint16 d s =
     (if s = ''.'' then (PC (cpu d), None)
      else
        (let addresses = addressesFor (symbols d) s in
         if length addresses = 1 then (addresses ! 0, None)
         else if length addresses > 1 then (0, Some (Multiple_addresses s addresses))
         else
           (let s = Replace_1 s CHR ''$'' ''0x'';
                (result, err) = ParseUint s 0 16
            in (ucast result, err))))"

subsection \<open>The forms of a number\<close>

text \<open>
  What the help text and the specification call the hex and decimal forms, and the octal
  digits, to state what the parser accepts: a digit string and its value in a base.
\<close>

definition oct_digit :: "char \<Rightarrow> bool" where
  "oct_digit c = (c \<in> set ''01234567'')"

definition dec_digit :: "char \<Rightarrow> bool" where
  "dec_digit c = (c \<in> set ''0123456789'')"

definition hex_digit :: "char \<Rightarrow> bool" where
  "hex_digit c = (c \<in> set ''0123456789abcdefABCDEF'')"

definition digit_value :: "char \<Rightarrow> nat" where
  "digit_value c =
     (let n = (of_char c :: nat)
      in if n \<le> 57 then n - 48 else if n \<le> 70 then n - 55 else n - 87)"

definition number_value :: "nat \<Rightarrow> string \<Rightarrow> nat" where
  "number_value b ds = foldl (\<lambda>n c. n * b + digit_value c) 0 ds"

subsection \<open>Commands\<close>

text \<open>
  A command that indexes \<^verbatim>\<open>cmd.arguments\<close> beyond its length panics (Go's index out of
  range), and so does every \<^verbatim>\<open>panic(err)\<close> of the source.
\<close>

definition commandNext :: "Instruction \<Rightarrow> Debugger \<Rightarrow> Debugger" where
  "commandNext inst d =
     (let addr = PC (cpu d) + word_of_int (Bytes inst)
      in d\<lparr>breakAddress := True, breakAddressValue := addr, run := True\<rparr>)"

definition busRead :: "Debugger \<Rightarrow> uint16 \<Rightarrow> panic + byte" where
  "busRead d addr =
     (case Bus (cpu d) addr of
        None \<Rightarrow> Inl (Panic_error (Unmapped_address addr))
      | Some v \<Rightarrow> Inr v)"

definition commandRead :: "cmd \<Rightarrow> Debugger \<Rightarrow> panic + Debugger" where
  "commandRead c d =
     (case cmd_arguments c of
        [] \<Rightarrow> Inl Index_out_of_range
      | a0 # _ \<Rightarrow>
          (case parseUint16 d a0 of
             (addr, Some err) \<Rightarrow> Inl (Panic_error err)
           | (addr, None) \<Rightarrow>
               (case busRead d addr of
                  Inl p \<Rightarrow> Inl p
                | Inr v \<Rightarrow> Inr (println (Read_result addr v) d))))"

definition commandRead16 :: "cmd \<Rightarrow> Debugger \<Rightarrow> panic + Debugger" where
  "commandRead16 c d =
     (case cmd_arguments c of
        [] \<Rightarrow> Inl Index_out_of_range
      | a0 # _ \<Rightarrow>
          (case parseUint16 d a0 of
             (addr, Some err) \<Rightarrow> Inl (Panic_error err)
           | (addr, None) \<Rightarrow>
               (let addrLo = addr; addrHi = addr + 1 in
                case busRead d addrLo of
                  Inl p \<Rightarrow> Inl p
                | Inr lo \<Rightarrow>
                    (case busRead d addrHi of
                       Inl p \<Rightarrow> Inl p
                     | Inr hi \<Rightarrow>
                         (let vLo = (ucast lo :: uint16); vHi = (ucast hi :: uint16);
                              v = push_bit 8 vHi OR vLo
                          in Inr (println (Read16_result addrLo addrHi v) d))))))"

definition commandRead32 :: "cmd \<Rightarrow> Debugger \<Rightarrow> panic + Debugger" where
  "commandRead32 c d =
     (case cmd_arguments c of
        [] \<Rightarrow> Inl Index_out_of_range
      | a0 # _ \<Rightarrow>
          (case parseUint16 d a0 of
             (addr, Some err) \<Rightarrow> Inl (Panic_error err)
           | (addr, None) \<Rightarrow>
               (let addr0 = addr; addr1 = addr + 1; addr2 = addr + 2; addr3 = addr + 3 in
                case busRead d addr0 of
                  Inl p \<Rightarrow> Inl p
                | Inr b0 \<Rightarrow>
                (case busRead d addr1 of
                  Inl p \<Rightarrow> Inl p
                | Inr b1 \<Rightarrow>
                (case busRead d addr2 of
                  Inl p \<Rightarrow> Inl p
                | Inr b2 \<Rightarrow>
                (case busRead d addr3 of
                  Inl p \<Rightarrow> Inl p
                | Inr b3 \<Rightarrow>
                    (let v0 = (ucast b0 :: 32 word); v1 = (ucast b1 :: 32 word);
                         v2 = (ucast b2 :: 32 word); v3 = (ucast b3 :: 32 word);
                         v = push_bit 24 v3 OR push_bit 16 v2 OR push_bit 8 v1 OR v0
                     in Inr (println (Read32_result addr0 addr3 v) d))))))))"

definition commandHelp :: "cmd \<Rightarrow> Debugger \<Rightarrow> Debugger" where
  "commandHelp c d = println Help d"

definition commandBreakAddress :: "cmd \<Rightarrow> Debugger \<Rightarrow> panic + Debugger" where
  "commandBreakAddress c d =
     (case cmd_arguments c of
        [] \<Rightarrow> Inl Index_out_of_range
      | a0 # _ \<Rightarrow>
          (case parseUint16 d a0 of
             (addr, Some err) \<Rightarrow> Inl (Panic_error err)
           | (addr, None) \<Rightarrow>
               Inr (println (Break_address_set addr)
                      (d\<lparr>breakAddress := True, breakAddressValue := addr\<rparr>))))"

text \<open>The \<^verbatim>\<open>ptr\<close> of \<^verbatim>\<open>commandBreakRegister\<close> points to one of three fields.\<close>

datatype reg_ptr = Ptr_breakRegAValue | Ptr_breakRegXValue | Ptr_breakRegYValue

definition store :: "reg_ptr \<Rightarrow> byte \<Rightarrow> Debugger \<Rightarrow> Debugger" where
  "store ptr v d =
     (case ptr of
        Ptr_breakRegAValue \<Rightarrow> d\<lparr>breakRegAValue := v\<rparr>
      | Ptr_breakRegXValue \<Rightarrow> d\<lparr>breakRegXValue := v\<rparr>
      | Ptr_breakRegYValue \<Rightarrow> d\<lparr>breakRegYValue := v\<rparr>)"

definition commandBreakRegister :: "cmd \<Rightarrow> Debugger \<Rightarrow> panic + Debugger" where
  "commandBreakRegister c d =
     (case cmd_arguments c of
        regStr # valueStr # _ \<Rightarrow>
          (case (if regStr \<in> set [''A'', ''a'', ''AC'', ''ac'']
                   then Some (d\<lparr>breakRegA := True\<rparr>, Ptr_breakRegAValue)
                 else if regStr \<in> set [''X'', ''x'']
                   then Some (d\<lparr>breakRegX := True\<rparr>, Ptr_breakRegXValue)
                 else if regStr \<in> set [''Y'', ''y'']
                   then Some (d\<lparr>breakRegY := True\<rparr>, Ptr_breakRegYValue)
                 else None) of
             None \<Rightarrow> Inl (Panic_error Invalid_register)
           | Some (d, ptr) \<Rightarrow>
               (case parseUint8 d valueStr of
                  (v, Some err) \<Rightarrow> Inl (Panic_error err)
                | (v, None) \<Rightarrow> Inr (store ptr v (println (Breakpoint_set regStr v) d))))
      | _ \<Rightarrow> Inl Index_out_of_range)"

subsection \<open>Reading a command\<close>

definition prompt :: "Debugger \<Rightarrow> printed" where
  "prompt d = Prompt (PC (cpu d)) (labelsFor (symbols d) (PC (cpu d)))"

definition readInput :: "Debugger \<Rightarrow> error + (string \<times> Debugger)" where
  "readInput d =
     (case liner d of
        [] \<Rightarrow> Inl Prompt_error
      | input # rest \<Rightarrow> Inr (input, (println (prompt d) d)\<lparr>liner := rest\<rparr>))"

definition command_id :: "string \<Rightarrow> int" where
  "command_id cmdString =
     (if cmdString = [] then debugCmdNone
      else if cmdString \<in> set [''break-address'', ''break-addr'', ''ba''] then debugCmdBreakAddress
      else if cmdString \<in> set [''break-instruction'', ''bi''] then debugCmdBreakInstruction
      else if cmdString \<in> set [''break-register'', ''break-reg'', ''br''] then debugCmdBreakRegister
      else if cmdString \<in> set [''continue'', ''c''] then debugCmdContinue
      else if cmdString \<in> set [''exit'', ''quit'', ''q''] then debugCmdExit
      else if cmdString \<in> set [''help'', ''h'', ''?''] then debugCmdHelp
      else if cmdString \<in> set [''next'', ''n''] then debugCmdNext
      else if cmdString = ''read'' then debugCmdRead
      else if cmdString = ''read16'' then debugCmdRead16
      else if cmdString = ''read32'' then debugCmdRead32
      else if cmdString \<in> set [''step'', ''st'', ''s''] then debugCmdStep
      else debugCmdInvalid)"

definition getCommand :: "Debugger \<Rightarrow> error + (cmd \<times> Debugger)" where
  "getCommand d =
     (case (case inputQueue d of
              input # rest \<Rightarrow>
                Inr (input, println (Echo input) (println (prompt d) (d\<lparr>inputQueue := rest\<rparr>)))
            | [] \<Rightarrow> readInput d) of
        Inl err \<Rightarrow> Inl err
      | Inr (input, d) \<Rightarrow>
          (let fields = Fields input;
               cmdString = (case fields of [] \<Rightarrow> [] | f # _ \<Rightarrow> ToLower f);
               arguments = (case fields of _ # a # as \<Rightarrow> a # as | _ \<Rightarrow> []);
               ident = command_id cmdString
           in case (if ident = debugCmdNone then lastCmd d else None) of
                Some c \<Rightarrow> Inr (c, d)
              | None \<Rightarrow>
                  (let c = \<lparr>cmd_id = ident, cmd_input = input, cmd_arguments = arguments\<rparr>
                   in Inr (c, d\<lparr>lastCmd := Some c\<rparr>))))"

subsection \<open>The command loop\<close>

definition no_release :: "panic + Debugger \<Rightarrow> panic + (Debugger \<times> bool)" where
  "no_release r = (case r of Inl p \<Rightarrow> Inl p | Inr d \<Rightarrow> Inr (d, False))"

text \<open>
  \<^verbatim>\<open>commandLoop\<close> reads one command (\<^verbatim>\<open>getCommand\<close> returns a command or an error, so the
  loop around it runs once) and dispatches it; the result says whether control is released
  to the CPU. \<^verbatim>\<open>exit\<close> sends 0 on the halt channel; who receives it, and when, is outside
  this sequential model, which records the value as sent.
\<close>

definition commandLoop :: "Instruction \<Rightarrow> Debugger \<Rightarrow> panic + (Debugger \<times> bool)" where
  "commandLoop inst d =
     (case getCommand d of
        Inl err \<Rightarrow> Inl (Panic_error err)
      | Inr (c, d) \<Rightarrow>
          if cmd_id c = debugCmdBreakAddress then no_release (commandBreakAddress c d)
          else if cmd_id c = debugCmdBreakInstruction then
            (case cmd_arguments c of
               [] \<Rightarrow> Inl Index_out_of_range
             | a0 # _ \<Rightarrow> Inr (d\<lparr>breakInstruction := ToUpper a0\<rparr>, False))
          else if cmd_id c = debugCmdBreakRegister then no_release (commandBreakRegister c d)
          else if cmd_id c = debugCmdContinue then Inr (d\<lparr>run := True\<rparr>, True)
          else if cmd_id c = debugCmdExit then
            Inr (d\<lparr>cpu := (cpu d)\<lparr>ExitChan := ExitChan (cpu d) @ [0]\<rparr>\<rparr>, False)
          else if cmd_id c = debugCmdHelp then Inr (commandHelp c d, False)
          else if cmd_id c = debugCmdNext then Inr (commandNext inst d, True)
          else if cmd_id c = debugCmdNone then Inr (d, False)
          else if cmd_id c = debugCmdRead then no_release (commandRead c d)
          else if cmd_id c = debugCmdRead16 then no_release (commandRead16 c d)
          else if cmd_id c = debugCmdRead32 then no_release (commandRead32 c d)
          else if cmd_id c = debugCmdStep then Inr (d, True)
          else if cmd_id c = debugCmdInvalid then Inr (println Invalid_command d, False)
          else Inl (Panic_message ''Unknown command code.''))"

subsection \<open>The hook\<close>

text \<open>
  The loop of \<^verbatim>\<open>BeforeExecute\<close> calls \<^verbatim>\<open>commandLoop\<close> until it releases control. Every call
  takes one line from the queue or from the user, and no command puts a line back, so with
  the finitely many lines of the model the loop ends: \<open>pending\<close> counts the lines left.
\<close>

definition pending :: "Debugger \<Rightarrow> nat" where
  "pending d = length (inputQueue d) + length (liner d)"

lemma pending_println [simp]: "pending (println l d) = pending d"
  by (simp add: pending_def println_def)

lemma pending_store [simp]: "pending (store ptr v d) = pending d"
  by (cases ptr) (simp_all add: store_def pending_def)

lemma getCommand_pending:
  "getCommand d = Inr (c, d1) \<Longrightarrow> pending d1 < pending d"
  by (auto simp: getCommand_def readInput_def pending_def println_def Let_def
      split: list.splits option.splits sum.splits if_splits)

lemma commandBreakAddress_pending:
  "commandBreakAddress c d = Inr d' \<Longrightarrow> pending d' = pending d"
  by (auto simp: commandBreakAddress_def pending_def println_def
      split: list.splits option.splits prod.splits)

lemma commandBreakRegister_Inr:
  assumes "commandBreakRegister c d = Inr d'"
  shows "\<exists>regStr valueStr rest d1 ptr v.
           cmd_arguments c = regStr # valueStr # rest
           \<and> (d1 = d\<lparr>breakRegA := True\<rparr> \<or> d1 = d\<lparr>breakRegX := True\<rparr>
                \<or> d1 = d\<lparr>breakRegY := True\<rparr>)
           \<and> parseUint8 d1 valueStr = (v, None)
           \<and> d' = store ptr v (println (Breakpoint_set regStr v) d1)"
proof -
  from assms obtain regStr valueStr rest where
    args: "cmd_arguments c = regStr # valueStr # rest"
    by (cases "cmd_arguments c"; cases "tl (cmd_arguments c)")
       (simp_all add: commandBreakRegister_def)
  let ?sel = "(if regStr \<in> set [''A'', ''a'', ''AC'', ''ac'']
                   then Some (d\<lparr>breakRegA := True\<rparr>, Ptr_breakRegAValue)
                 else if regStr \<in> set [''X'', ''x'']
                   then Some (d\<lparr>breakRegX := True\<rparr>, Ptr_breakRegXValue)
                 else if regStr \<in> set [''Y'', ''y'']
                   then Some (d\<lparr>breakRegY := True\<rparr>, Ptr_breakRegYValue)
                 else None)"
  from assms args obtain d1 ptr where sel: "?sel = Some (d1, ptr)"
    by (cases ?sel) (auto simp only: commandBreakRegister_def list.case option.case)
  then have d1: "d1 = d\<lparr>breakRegA := True\<rparr> \<or> d1 = d\<lparr>breakRegX := True\<rparr>
                 \<or> d1 = d\<lparr>breakRegY := True\<rparr>"
    by (metis option.distinct(1) option.inject prod.inject)
  obtain v err where pu: "parseUint8 d1 valueStr = (v, err)"
    by (cases "parseUint8 d1 valueStr")
  from assms args sel pu
  have "err = None \<and> d' = store ptr v (println (Breakpoint_set regStr v) d1)"
    by (cases err)
       (simp_all only: commandBreakRegister_def list.case option.case prod.case
          sum.inject sum.distinct)
  with args d1 pu show ?thesis
    by blast
qed

lemma commandBreakRegister_pending:
  assumes "commandBreakRegister c d = Inr d'"
  shows "pending d' = pending d"
proof -
  from commandBreakRegister_Inr [OF assms] obtain regStr d1 ptr v where
    d1: "d1 = d\<lparr>breakRegA := True\<rparr> \<or> d1 = d\<lparr>breakRegX := True\<rparr>
         \<or> d1 = d\<lparr>breakRegY := True\<rparr>"
    and d': "d' = store ptr v (println (Breakpoint_set regStr v) d1)"
    by blast
  from d' have "pending d' = pending d1"
    by simp
  moreover from d1 have "pending d1 = pending d"
    by (elim disjE) (simp_all add: pending_def)
  ultimately show ?thesis
    by simp
qed

lemma commandRead_Inr:
  "commandRead c d = Inr d' \<Longrightarrow> \<exists>addr v. d' = println (Read_result addr v) d"
  by (auto simp: commandRead_def
      split: list.splits option.splits prod.splits sum.splits)

lemma commandRead16_Inr:
  "commandRead16 c d = Inr d' \<Longrightarrow> \<exists>lo hi v. d' = println (Read16_result lo hi v) d"
  by (auto simp: commandRead16_def Let_def
      split: list.splits option.splits prod.splits sum.splits)

lemma commandRead32_Inr:
  "commandRead32 c d = Inr d' \<Longrightarrow> \<exists>lo hi v. d' = println (Read32_result lo hi v) d"
  by (auto simp: commandRead32_def Let_def
      split: list.splits option.splits prod.splits sum.splits)

lemma no_release_Inr: "no_release r = Inr (d', b) \<longleftrightarrow> r = Inr d' \<and> \<not> b"
  by (cases r) (auto simp: no_release_def)

lemma commandLoop_pending:
  assumes "commandLoop inst d = Inr (d', r)"
  shows "pending d' < pending d"
proof -
  from assms obtain c d1 where g: "getCommand d = Inr (c, d1)"
    by (auto simp: commandLoop_def split: sum.splits)
  then have lt: "pending d1 < pending d"
    by (rule getCommand_pending)
  from assms g have "pending d' = pending d1"
    by (auto simp: commandLoop_def no_release_Inr commandHelp_def commandNext_def pending_def
        println_def
        dest: commandBreakAddress_pending commandBreakRegister_pending
        dest!: commandRead_Inr commandRead16_Inr commandRead32_Inr
        split: if_splits list.splits)
  with lt show ?thesis by simp
qed

function commandLoop_until_release :: "Instruction \<Rightarrow> Debugger \<Rightarrow> panic + Debugger" where
  "commandLoop_until_release inst d =
     (case commandLoop inst d of
        Inl p \<Rightarrow> Inl p
      | Inr (d', release) \<Rightarrow> if release then Inr d' else commandLoop_until_release inst d')"
  by pat_completeness auto
termination
proof (relation "measure (\<lambda>(inst, d). pending d)")
  show "wf (measure (\<lambda>(inst, d). pending d))"
    by simp
next
  fix inst d x2 x y
  assume "commandLoop inst d = Inr x2" "(x, y) = x2" "\<not> y"
  then have "commandLoop inst d = Inr (x, y)"
    by simp
  then have "pending x < pending d"
    by (rule commandLoop_pending)
  then show "((inst, x), (inst, d)) \<in> measure (\<lambda>(inst, d). pending d)"
    by simp
qed

declare commandLoop_until_release.simps [simp del]



text \<open>
  \<^verbatim>\<open>BeforeExecute\<close>, the hook the CPU calls with each instruction before executing it.
\<close>

definition BeforeExecute :: "Instruction \<Rightarrow> Debugger \<Rightarrow> panic + Debugger" where
  "BeforeExecute inst d =
     (let d = doBreakpoints inst d in
      if run d then Inr d
      else
        (let d = println (Print_cpu (PC (cpu d)) (AC (cpu d)) (X (cpu d)) (Y (cpu d))
                            (SP (cpu d)) (SR (cpu d))) d;
             syms = (if IsAbsolute inst then labelsFor (symbols d) (Op16 inst) else []);
             d = println (Print_next inst syms) d
         in commandLoop_until_release inst d))"


subsection \<open>A concrete session\<close>

text \<open>
  A machine used as concrete input below: 32 KiB of zero bytes from address 0, a symbol
  table where \<open>start\<close> has one address and \<open>loop\<close> has two, and the CPU at \<open>0xF31F\<close> about to
  execute a three-byte \<open>JSR\<close>.
\<close>

definition example_cpu :: Cpu where
  "example_cpu =
     \<lparr> PC = 0xF31F, AC = 0, X = 0, Y = 0, SP = 0xFF, SR = 0,
       Bus = (\<lambda>a. if a < 0x8000 then Some 0 else None), ExitChan = [] \<rparr>"

definition example_symbols :: debugSymbols where
  "example_symbols =
     \<lparr> labelsFor = (\<lambda>a. if a = 0x1000 then [''start'']
                         else if a = 0x2000 \<or> a = 0x3000 then [''loop''] else []),
       addressesFor = (\<lambda>s. if s = ''start'' then [0x1000]
                            else if s = ''loop'' then [0x2000, 0x3000] else []) \<rparr>"

definition example_jsr :: Instruction where
  "example_jsr = \<lparr> Name = ''JSR'', Bytes = 3, Op16 = 0x1000, IsAbsolute = True \<rparr>"


definition example_debugger :: "string list \<Rightarrow> Debugger" where
  "example_debugger cmds = QueueCommands cmds (NewDebugger example_cpu example_symbols [])"




text \<open>The breakpoints of the debugger, as one value.\<close>

definition breakpoints ::
  "Debugger \<Rightarrow> (bool \<times> uint16) \<times> string \<times> (bool \<times> byte) \<times> (bool \<times> byte) \<times> (bool \<times> byte)" where
  "breakpoints d =
     ((breakAddress d, breakAddressValue d), breakInstruction d,
      (breakRegA d, breakRegAValue d), (breakRegX d, breakRegXValue d),
      (breakRegY d, breakRegYValue d))"

definition panic_of :: "panic + 'a \<Rightarrow> panic option" where
  "panic_of r = (case r of Inl p \<Rightarrow> Some p | Inr x \<Rightarrow> None)"


section \<open>Hardware configuration (package machine)\<close>

text \<open>
  \<^verbatim>\<open>RamChip.Configure\<close> returns \<^verbatim>\<open>&memory.Ram{}\<close>, the zero value of a type of package
  \<^verbatim>\<open>memory\<close>, whose declaration is not among the sources; that value is the parameter
  \<open>zero_Ram\<close>.
\<close>

record RamChip =
  Size :: uint16

definition RamChip_Configure :: "'ram \<Rightarrow> RamChip \<Rightarrow> error + 'ram" where
  "RamChip_Configure zero_Ram c =
     (if Size c < 1024 then Inl (Invalid_ram_size (Size c))
      else Inr zero_Ram)"

section \<open>Properties of the serial controller\<close>

lemma NewAcia6551_attached: "acia_attached (NewAcia6551 per)"
  by (simp add: acia_attached_def NewAcia6551_def split: option.splits)

lemma Acia6551_Write_attached:
  assumes "acia_attached a" and "Acia6551_Write a address data = Inr a'"
  shows "acia_attached a'"
proof -
  have "(peripheral a' = None \<longleftrightarrow> peripheral a = None) \<and> capabilities a' = capabilities a"
    using assms(2)
    by (auto simp: Acia6551_Write_def txWrite_def Reset_def setCommand_def setControl_def
        split: if_splits option.splits prod.splits)
  with assms(1) show ?thesis
    by (simp add: acia_attached_def)
qed

lemma Acia6551_Read_attached:
  assumes "acia_attached a" and "Acia6551_Read a address = Inr (v, a')"
  shows "acia_attached a'"
proof -
  have "(peripheral a' = None \<longleftrightarrow> peripheral a = None) \<and> capabilities a' = capabilities a"
    using assms(2)
    by (auto simp: Acia6551_Read_def rxRead_def Let_def
        split: if_splits option.splits prod.splits)
  with assms(1) show ?thesis
    by (simp add: acia_attached_def)
qed

lemma bit3_mask_not_one: "(data AND 0x08) \<noteq> (1 :: byte)"
proof
  assume h: "data AND 0x08 = 1"
  have "\<not> bit (data AND (0x08 :: byte)) 0"
    by (simp add: bit_simps)
  with h show False by simp
qed

text \<open>
  C5. Writing any byte to the status offset (offset 1) resets the controller: afterwards
  rxFull is false, txEmpty is true, overrun is false, both interrupt-enable flags are false,
  and the rx and tx bytes and the command and control registers are zero, whatever the byte
  written; the peripheral and its capabilities are as before.
\<close>

theorem C5_status_write_resets:
  "Acia6551_Write a 1 data =
     Inr (a\<lparr> rx := 0, tx := 0, commandData := 0, controlData := 0,
             rxFull := False, txEmpty := True,
             rxIrqEnabled := False, txIrqEnabled := False, overrun := False \<rparr>)"
  by (simp add: Acia6551_Write_def aciaData_def aciaStatus_def Reset_def
      setCommand_def setControl_def)

text \<open>
  C9. Writing a byte to the command register (offset 2) leaves rxIrqEnabled equal to
  (byte AND 0x02) \<noteq> 0 and txIrqEnabled equal to (byte AND 0x04) \<noteq> 0, whatever bit 3 of the
  byte is: the further guard (byte AND 0x08) \<noteq> 1 of the code always holds.
\<close>

theorem C9_command_write_irq_flags:
  "Acia6551_Write a 2 data =
     Inr (a\<lparr> commandData := data,
             rxIrqEnabled := (data AND 0x02) \<noteq> 0,
             txIrqEnabled := (data AND 0x04) \<noteq> 0 \<rparr>)
   \<and> (data AND 0x08) \<noteq> 1
   \<and> rxIrqEnabled (setCommand (data XOR 0x08) a) = rxIrqEnabled (setCommand data a)
   \<and> txIrqEnabled (setCommand (data XOR 0x08) a) = txIrqEnabled (setCommand data a)"
proof -
  have g: "\<And>d :: byte. (d AND 0x08) \<noteq> 1"
    by (rule bit3_mask_not_one)
  have w: "Acia6551_Write a 2 data = Inr (setCommand data a)"
    by (simp add: Acia6551_Write_def aciaData_def aciaStatus_def aciaCommand_def)
  have "(data XOR 0x08) AND 0x02 = (data AND 0x02) XOR ((0x08 :: byte) AND 0x02)"
    by (rule bit.conj_xor_distrib2)
  then have x2: "(data XOR 0x08) AND 0x02 = data AND 0x02"
    by simp
  have "(data XOR 0x08) AND 0x04 = (data AND 0x04) XOR ((0x08 :: byte) AND 0x04)"
    by (rule bit.conj_xor_distrib2)
  then have x4: "(data XOR 0x08) AND 0x04 = data AND 0x04"
    by simp
  show ?thesis
    using g x2 x4 by (simp add: w setCommand_def)
qed

text \<open>
  C6. A read of the data register (offset 0) of a controller built by \<^verbatim>\<open>NewAcia6551\<close>
  returns, and afterwards overrun and rxFull are both false, whether or not the peripheral
  was asked, had a byte or reported an error. The value returned is the rx byte after the
  read; when the peripheral was asked (rxFull was false and the Read capability is declared)
  and supplied a byte, it is that byte, and otherwise the rx byte is as before.
\<close>

theorem C6_data_read_clears_flags:
  assumes "acia_attached a"
  shows "\<exists>v a'. Acia6551_Read a 0 = Inr (v, a')
           \<and> \<not> overrun a' \<and> \<not> rxFull a' \<and> v = rx a'
           \<and> (\<forall>m p data err p'.
                 \<not> rxFull a \<and> (capabilities a AND Read_cap) = Read_cap
                 \<and> peripheral a = Some (m, p) \<and> Read m p = ((True, data, err), p')
                 \<longrightarrow> v = data)
           \<and> (\<forall>m p data err p'.
                 peripheral a = Some (m, p) \<and> Read m p = ((False, data, err), p')
                 \<longrightarrow> v = rx a)
           \<and> (rxFull a \<or> (capabilities a AND Read_cap) \<noteq> Read_cap \<longrightarrow> v = rx a)"
proof (cases "\<not> rxFull a \<and> (capabilities a AND Read_cap) = Read_cap")
  case asked: True
  then have "capabilities a \<noteq> 0"
    by (auto simp: Read_cap_def)
  with assms obtain m p where mp: "peripheral a = Some (m, p)"
    by (auto simp: acia_attached_def)
  obtain rd data err p' where r: "Read m p = ((rd, data, err), p')"
    by (metis prod.exhaust)
  show ?thesis
    using asked mp r by (simp add: Acia6551_Read_def aciaData_def rxRead_def Let_def)
next
  case False
  then show ?thesis
    by (auto simp: Acia6551_Read_def aciaData_def rxRead_def Let_def)
qed

theorem C6_data_read_clears_flags_witness:
  "acia_attached example_acia
   \<and> (\<exists>a'. Acia6551_Read example_acia 0 = Inr (0x41, a') \<and> \<not> overrun a' \<and> \<not> rxFull a')
   \<and> acia_attached example_failing_acia
   \<and> (\<exists>a'. Acia6551_Read example_failing_acia 0 = Inr (0, a')
          \<and> \<not> overrun a' \<and> \<not> rxFull a')"
proof -
  have att: "acia_attached example_acia"
    by (simp add: example_acia_def NewAcia6551_def acia_attached_def)
  have rd: "Read Terminal_methods example_terminal =
              ((True, 0x41, None),
               example_terminal\<lparr>t_in := Some \<lparr>reads = [], writes = [], written = []\<rparr>\<rparr>)"
    by (simp add: Terminal_methods_def Terminal_Read_def example_terminal_def NewTerminal_def
        File_Read_def)
  have cap: "\<not> rxFull example_acia \<and> (capabilities example_acia AND Read_cap) = Read_cap
             \<and> peripheral example_acia = Some (Terminal_methods, example_terminal)"
    by (simp add: example_acia_def NewAcia6551_def Terminal_methods_def
        Terminal_Capabilities_def example_terminal_def NewTerminal_def BiDirectional_def
        Read_cap_def Write_cap_def)
  from C6_data_read_clears_flags [OF att] obtain v a' where
    h: "Acia6551_Read example_acia 0 = Inr (v, a')" "\<not> overrun a'" "\<not> rxFull a'"
       "\<forall>m p data err p'.
           \<not> rxFull example_acia \<and> (capabilities example_acia AND Read_cap) = Read_cap
           \<and> peripheral example_acia = Some (m, p) \<and> Read m p = ((True, data, err), p')
           \<longrightarrow> v = data"
    by blast
  from h(4) cap rd have "v = 0x41"
    by blast
  with h have w1: "\<exists>a'. Acia6551_Read example_acia 0 = Inr (0x41, a')
      \<and> \<not> overrun a' \<and> \<not> rxFull a'"
    by blast
  have att': "acia_attached example_failing_acia"
    by (simp add: example_failing_acia_def NewAcia6551_def acia_attached_def)
  have nocap: "(capabilities example_failing_acia AND Read_cap) \<noteq> Read_cap"
    and rx0: "rx example_failing_acia = 0"
    by (simp_all add: example_failing_acia_def NewAcia6551_def Terminal_methods_def
        Terminal_Capabilities_def example_failing_terminal_def NewTerminal_def
        Read_cap_def Write_cap_def)
  from C6_data_read_clears_flags [OF att'] obtain v' a'' where
    h': "Acia6551_Read example_failing_acia 0 = Inr (v', a'')" "\<not> overrun a''" "\<not> rxFull a''"
       "rxFull example_failing_acia \<or> (capabilities example_failing_acia AND Read_cap) \<noteq> Read_cap
          \<longrightarrow> v' = rx example_failing_acia"
    by blast
  from h'(4) nocap rx0 have v0: "v' = 0"
    by simp
  from h'(1,2,3) have w2: "\<exists>a'. Acia6551_Read example_failing_acia 0 = Inr (0, a')
      \<and> \<not> overrun a' \<and> \<not> rxFull a'"
    unfolding v0 by (intro exI [of _ a'']) simp
  from att w1 att' w2 show ?thesis
    by blast
qed

text \<open>
  C7. A write of a byte to the data register (offset 0): when the Write capability is
  declared, the byte is passed to the peripheral's \<^verbatim>\<open>Write\<close>, it becomes the tx byte, and
  afterwards txEmpty is true exactly when the peripheral accepted the byte or its write
  returned an error; when the Write capability is not declared, the controller, and so
  txEmpty and the tx byte, is unchanged.
\<close>

theorem C7_data_write:
  "((capabilities a AND Write_cap) = Write_cap \<and> peripheral a = Some (m, p)
      \<and> Write m p data = ((accepted, err), p')
    \<longrightarrow> (\<exists>a'. Acia6551_Write a 0 data = Inr a'
              \<and> peripheral a' = Some (m, p') \<and> tx a' = data
              \<and> (txEmpty a' \<longleftrightarrow> accepted \<or> err \<noteq> None)))
   \<and> ((capabilities a AND Write_cap) \<noteq> Write_cap \<longrightarrow> Acia6551_Write a 0 data = Inr a)"
  by (simp add: Acia6551_Write_def aciaData_def txWrite_def)

theorem C7_data_write_witness:
  "(\<exists>a'. Acia6551_Write example_acia 0 0x42 = Inr a'
         \<and> peripheral a' =
             Some (Terminal_methods,
                   example_terminal\<lparr>t_out := Some \<lparr>reads = [], writes = [], written = [0x42]\<rparr>\<rparr>)
         \<and> tx a' = 0x42 \<and> txEmpty a')
   \<and> (\<exists>a'. Acia6551_Write example_failing_acia 0 0x42 = Inr a'
         \<and> peripheral a' =
             Some (Terminal_methods,
                   example_failing_terminal\<lparr>t_out := Some \<lparr>reads = [], writes = [], written = []\<rparr>\<rparr>)
         \<and> tx a' = 0x42 \<and> txEmpty a')
   \<and> Acia6551_Write (NewAcia6551 None :: Terminal Acia6551) 0 0x42 = Inr (NewAcia6551 None)"
proof -
  have wr: "Write Terminal_methods example_terminal 0x42 =
              ((True, None),
               example_terminal\<lparr>t_out := Some \<lparr>reads = [], writes = [], written = [0x42]\<rparr>\<rparr>)"
    by (simp add: Terminal_methods_def Terminal_Write_def example_terminal_def NewTerminal_def
        File_Write_def)
  have cap: "(capabilities example_acia AND Write_cap) = Write_cap
             \<and> peripheral example_acia = Some (Terminal_methods, example_terminal)"
    by (simp add: example_acia_def NewAcia6551_def Terminal_methods_def
        Terminal_Capabilities_def example_terminal_def NewTerminal_def BiDirectional_def
        Read_cap_def Write_cap_def)
  have wr': "Write Terminal_methods example_failing_terminal 0x42 =
              ((False, Some (Io_error ''EIO'')),
               example_failing_terminal
                 \<lparr>t_out := Some \<lparr>reads = [], writes = [], written = []\<rparr>\<rparr>)"
    by (simp add: Terminal_methods_def Terminal_Write_def example_failing_terminal_def
        NewTerminal_def File_Write_def)
  have cap': "(capabilities example_failing_acia AND Write_cap) = Write_cap
             \<and> peripheral example_failing_acia
                 = Some (Terminal_methods, example_failing_terminal)"
    by (simp add: example_failing_acia_def NewAcia6551_def Terminal_methods_def
        Terminal_Capabilities_def example_failing_terminal_def NewTerminal_def Write_cap_def)
  have nocap: "(capabilities (NewAcia6551 None :: Terminal Acia6551) AND Write_cap) \<noteq> Write_cap"
    by (simp add: NewAcia6551_def Write_cap_def)
  have w1: "\<exists>a'. Acia6551_Write example_acia 0 0x42 = Inr a'
         \<and> peripheral a' =
             Some (Terminal_methods,
                   example_terminal\<lparr>t_out := Some \<lparr>reads = [], writes = [], written = [0x42]\<rparr>\<rparr>)
         \<and> tx a' = 0x42 \<and> txEmpty a'"
    using C7_data_write [of example_acia Terminal_methods example_terminal "0x42" True None
        "example_terminal\<lparr>t_out := Some \<lparr>reads = [], writes = [], written = [0x42]\<rparr>\<rparr>"]
      wr cap
    by simp
  have w2: "\<exists>a'. Acia6551_Write example_failing_acia 0 0x42 = Inr a'
         \<and> peripheral a' =
             Some (Terminal_methods,
                   example_failing_terminal\<lparr>t_out := Some \<lparr>reads = [], writes = [], written = []\<rparr>\<rparr>)
         \<and> tx a' = 0x42 \<and> txEmpty a'"
    using C7_data_write [of example_failing_acia Terminal_methods example_failing_terminal "0x42"
        False "Some (Io_error ''EIO'')"
        "example_failing_terminal\<lparr>t_out := Some \<lparr>reads = [], writes = [], written = []\<rparr>\<rparr>"]
      wr' cap'
    by simp
  have w3: "Acia6551_Write (NewAcia6551 None :: Terminal Acia6551) 0 0x42 = Inr (NewAcia6551 None)"
    using C7_data_write [of "NewAcia6551 None :: Terminal Acia6551" undefined undefined "0x42"
        undefined undefined undefined]
      nocap
    by simp
  from w1 w2 w3 show ?thesis
    by blast
qed

section \<open>Properties of the hardware configuration\<close>

text \<open>
  C10. Configuring a RAM chip returns an error exactly when the configured size is less
  than 1024. When it succeeds the size plays no further part: the device returned is the
  zero-valued \<^verbatim>\<open>memory.Ram\<close>, the same for every accepted size.
\<close>

theorem C10_ram_configure:
  "(isl (RamChip_Configure zero_Ram c) \<longleftrightarrow> Size c < 1024)
   \<and> (Size c < 1024 \<longrightarrow> RamChip_Configure zero_Ram c = Inl (Invalid_ram_size (Size c)))
   \<and> (\<not> Size c < 1024 \<longrightarrow> RamChip_Configure zero_Ram c = Inr zero_Ram)
   \<and> (\<not> Size c < 1024 \<and> \<not> Size c' < 1024
        \<longrightarrow> RamChip_Configure zero_Ram c = RamChip_Configure zero_Ram c')"
  by (simp add: RamChip_Configure_def)

theorem C10_ram_configure_witness:
  "RamChip_Configure [0, 0 :: byte] \<lparr>Size = 1023\<rparr> = Inl (Invalid_ram_size 1023)
   \<and> RamChip_Configure [0, 0 :: byte] \<lparr>Size = 1024\<rparr> = Inr [0, 0]
   \<and> RamChip_Configure [0, 0 :: byte] \<lparr>Size = 1024\<rparr>
       = RamChip_Configure [0, 0] \<lparr>Size = 0x8000\<rparr>"
proof -
  show ?thesis
    using C10_ram_configure [of "[0, 0 :: byte]" "\<lparr>Size = 1023\<rparr>" "\<lparr>Size = 1023\<rparr>"]
      C10_ram_configure [of "[0, 0 :: byte]" "\<lparr>Size = 1024\<rparr>" "\<lparr>Size = 0x8000\<rparr>"]
      C10_ram_configure [of "[0, 0 :: byte]" "\<lparr>Size = 0x8000\<rparr>" "\<lparr>Size = 1024\<rparr>"]
    by simp
qed

section \<open>Properties of the debugger\<close>

subsection \<open>Reading and dispatching a command\<close>

lemma getCommand_frame:
  assumes "getCommand d = Inr (c, d1)"
  shows "cpu d1 = cpu d \<and> symbols d1 = symbols d \<and> run d1 = run d
         \<and> breakAddress d1 = breakAddress d \<and> breakAddressValue d1 = breakAddressValue d
         \<and> breakInstruction d1 = breakInstruction d
         \<and> breakRegA d1 = breakRegA d \<and> breakRegAValue d1 = breakRegAValue d
         \<and> breakRegX d1 = breakRegX d \<and> breakRegXValue d1 = breakRegXValue d
         \<and> breakRegY d1 = breakRegY d \<and> breakRegYValue d1 = breakRegYValue d"
  using assms
  by (auto simp: getCommand_def readInput_def println_def Let_def
      split: list.splits option.splits sum.splits if_splits)

lemma getCommand_queued:
  assumes "inputQueue d = l # rest" and "Fields l = w # args"
    and "command_id (ToLower w) \<noteq> debugCmdNone"
  shows "getCommand d =
           Inr (\<lparr>cmd_id = command_id (ToLower w), cmd_input = l, cmd_arguments = args\<rparr>,
                (println (Echo l) (println (prompt d) (d\<lparr>inputQueue := rest\<rparr>)))
                  \<lparr>lastCmd := Some \<lparr>cmd_id = command_id (ToLower w), cmd_input = l,
                                     cmd_arguments = args\<rparr>\<rparr>)"
  using assms by (cases args) (simp_all add: getCommand_def Let_def)

lemma getCommand_typed:
  assumes "inputQueue d = []" and "liner d = l # rest" and "Fields l = w # args"
    and "command_id (ToLower w) \<noteq> debugCmdNone"
  shows "getCommand d =
           Inr (\<lparr>cmd_id = command_id (ToLower w), cmd_input = l, cmd_arguments = args\<rparr>,
                ((println (prompt d) d)\<lparr>liner := rest\<rparr>)
                  \<lparr>lastCmd := Some \<lparr>cmd_id = command_id (ToLower w), cmd_input = l,
                                     cmd_arguments = args\<rparr>\<rparr>)"
  using assms by (cases args) (simp_all add: getCommand_def readInput_def Let_def)

lemma commandLoop_next:
  assumes "getCommand d = Inr (c, d1)" and "cmd_id c = debugCmdNext"
  shows "commandLoop inst d = Inr (commandNext inst d1, True)"
  using assms by (simp add: commandLoop_def debugCmd_defs)

text \<open>
  C4. Whatever the instruction, the \<^verbatim>\<open>next\<close> command enables the address breakpoint, sets
  its address to \<open>PC\<close> plus the instruction's length (16-bit addition; \<open>PC\<close> and the length are
  those the hook was called with, before the instruction executes) and sets the free-run
  flag; the command loop, on reading \<open>next\<close> or \<open>n\<close>, does exactly this and releases control.
\<close>

theorem C4_next_installs_breakpoint:
  "breakAddress (commandNext inst d)
   \<and> breakAddressValue (commandNext inst d) = PC (cpu d) + word_of_int (Bytes inst)
   \<and> run (commandNext inst d)
   \<and> cpu (commandNext inst d) = cpu d
   \<and> (0 \<le> Bytes inst \<longrightarrow>
        unat (breakAddressValue (commandNext inst d))
          = (unat (PC (cpu d)) + nat (Bytes inst)) mod 65536)
   \<and> (getCommand d = Inr (c, d1) \<and> cmd_id c = debugCmdNext \<longrightarrow>
        commandLoop inst d = Inr (commandNext inst d1, True)
        \<and> breakAddress (commandNext inst d1)
        \<and> breakAddressValue (commandNext inst d1) = PC (cpu d) + word_of_int (Bytes inst)
        \<and> run (commandNext inst d1))
   \<and> command_id ''next'' = debugCmdNext \<and> command_id ''n'' = debugCmdNext"
proof -
  have a: "breakAddress (commandNext inst d)
      \<and> breakAddressValue (commandNext inst d) = PC (cpu d) + word_of_int (Bytes inst)
      \<and> run (commandNext inst d) \<and> cpu (commandNext inst d) = cpu d" for d
    by (simp add: commandNext_def Let_def)
  have b: "unat (PC (cpu d) + word_of_int (Bytes inst) :: uint16)
             = (unat (PC (cpu d)) + nat (Bytes inst)) mod 65536" if "0 \<le> Bytes inst"
  proof -
    from that have "(word_of_int (Bytes inst) :: uint16) = of_nat (nat (Bytes inst))"
      by simp
    then show ?thesis
      by (simp add: unat_word_ariths unat_of_nat mod_add_right_eq)
  qed
  have c: "commandLoop inst d = Inr (commandNext inst d1, True)
           \<and> breakAddressValue (commandNext inst d1) = PC (cpu d) + word_of_int (Bytes inst)"
    if "getCommand d = Inr (c, d1)" "cmd_id c = debugCmdNext"
    using that commandLoop_next [OF that] getCommand_frame [OF that(1)] a [of d1]
    by simp
  have e: "command_id ''next'' = debugCmdNext \<and> command_id ''n'' = debugCmdNext"
    by (simp add: command_id_def)
  show ?thesis
    using a [of d] a [of d1] b c e by simp
qed

theorem C4_next_installs_breakpoint_witness:
  "(0::int) \<le> Bytes example_jsr
   \<and> unat (breakAddressValue (commandNext example_jsr (example_debugger [''next''])))
        = (unat (PC (cpu (example_debugger [''next'']))) + nat (Bytes example_jsr)) mod 65536
   \<and> (\<exists>c d1. getCommand (example_debugger [''next'']) = Inr (c, d1) \<and> cmd_id c = debugCmdNext
        \<and> commandLoop example_jsr (example_debugger [''next''])
             = Inr (commandNext example_jsr d1, True)
        \<and> breakAddress (commandNext example_jsr d1)
        \<and> breakAddressValue (commandNext example_jsr d1) = 0xF322
        \<and> run (commandNext example_jsr d1))"
proof -
  have q: "inputQueue (example_debugger [''next'']) = [''next'']"
    by (simp add: example_debugger_def QueueCommands_def NewDebugger_def)
  have f: "Fields ''next'' = [''next'']"
    by code_simp
  have l: "ToLower ''next'' = ''next''"
    by code_simp
  have i: "command_id ''next'' = debugCmdNext"
    by (simp add: command_id_def)
  have g: "\<exists>c d1. getCommand (example_debugger [''next'']) = Inr (c, d1) \<and> cmd_id c = debugCmdNext"
    using getCommand_queued [OF q f] l i by (simp add: debugCmd_defs)
  have pc: "PC (cpu (example_debugger [''next''])) + word_of_int (Bytes example_jsr) = 0xF322"
    by (simp add: example_debugger_def QueueCommands_def NewDebugger_def example_cpu_def
        example_jsr_def)
  have b: "(0::int) \<le> Bytes example_jsr"
    by (simp add: example_jsr_def)
  from g obtain c d1 where
    g': "getCommand (example_debugger [''next'']) = Inr (c, d1)" "cmd_id c = debugCmdNext"
    by blast
  show ?thesis
    using C4_next_installs_breakpoint [of example_jsr "example_debugger [''next'']" c d1]
      g' pc b
    by auto
qed

subsection \<open>Breakpoints\<close>




lemma store_breakAddress [simp]: "breakAddress (store ptr v d) = breakAddress d"
  by (cases ptr) (simp_all add: store_def)

lemma println_breakAddress [simp]: "breakAddress (println l d) = breakAddress d"
  by (simp add: println_def)



lemma store_breakAddressValue [simp]: "breakAddressValue (store ptr v d) = breakAddressValue d"
  by (cases ptr) (simp_all add: store_def)

lemma println_breakAddressValue [simp]:
  "breakAddressValue (println l d) = breakAddressValue d"
  by (simp add: println_def)












subsection \<open>Parsing an address\<close>

lemma hex_digits_table:
  "list_all
     (\<lambda>c. (of_char c :: byte) \<noteq> 0x5F
          \<and> (if 0x30 \<le> (of_char c :: byte) \<and> (of_char c :: byte) \<le> 0x39
                then Some ((of_char c :: byte) - 0x30)
              else if 0x61 \<le> lower (of_char c) \<and> lower (of_char c) \<le> 0x7A
                then Some (lower (of_char c) - 0x61 + 10)
              else None) = Some (of_nat (digit_value c))
          \<and> digit_value c < 16 \<and> c \<noteq> CHR ''$'')
     ''0123456789abcdefABCDEF''"
  by code_simp

lemma dec_digits_table:
  "list_all (\<lambda>c. hex_digit c \<and> digit_value c < 10 \<and> (c \<noteq> CHR ''0'' \<longrightarrow> (of_char c :: byte) \<noteq> 0x30))
     ''0123456789''"
  by code_simp

lemma dec_digits_lower:
  "list_all (\<lambda>c. lower (of_char c) \<noteq> 0x62 \<and> lower (of_char c) \<noteq> 0x6F
               \<and> lower (of_char c) \<noteq> 0x78 \<and> c \<noteq> CHR ''.'')
     ''0123456789''"
  by code_simp

lemma oct_digits_table:
  "list_all (\<lambda>c. dec_digit c \<and> digit_value c < 8) ''01234567''"
  by code_simp

lemma hex_digit_byte:
  assumes "hex_digit c"
  shows "(of_char c :: byte) \<noteq> 0x5F"
    and "(if 0x30 \<le> (of_char c :: byte) \<and> (of_char c :: byte) \<le> 0x39
                then Some ((of_char c :: byte) - 0x30)
              else if 0x61 \<le> lower (of_char c) \<and> lower (of_char c) \<le> 0x7A
                then Some (lower (of_char c) - 0x61 + 10)
              else None) = Some (of_nat (digit_value c))"
    and "digit_value c < 16" and "c \<noteq> CHR ''$''"
  using assms hex_digits_table unfolding hex_digit_def list_all_iff by blast+

lemma dec_digit_hex:
  assumes "dec_digit c"
  shows "hex_digit c" and "digit_value c < 10"
    and "c \<noteq> CHR ''0'' \<Longrightarrow> (of_char c :: byte) \<noteq> 0x30"
  using assms dec_digits_table unfolding dec_digit_def list_all_iff by blast+

lemma dec_digit_lower:
  assumes "dec_digit c"
  shows "lower (of_char c) \<noteq> 0x62" and "lower (of_char c) \<noteq> 0x6F"
    and "lower (of_char c) \<noteq> 0x78" and "c \<noteq> CHR ''.''"
  using assms dec_digits_lower unfolding dec_digit_def list_all_iff by blast+

lemma oct_digit_dec:
  assumes "oct_digit c"
  shows "dec_digit c" and "digit_value c < 8"
  using assms oct_digits_table unfolding oct_digit_def list_all_iff by blast+

lemma foldl_digits_ge:
  "0 < b \<Longrightarrow> k \<le> foldl (\<lambda>n c. n * b + digit_value c) k ds"
proof (induction ds arbitrary: k)
  case Nil
  then show ?case by simp
next
  case (Cons c ds)
  have "k \<le> k * b + digit_value c"
    using Cons.prems by (cases b) simp_all
  also have "\<dots> \<le> foldl (\<lambda>n c. n * b + digit_value c) (k * b + digit_value c) ds"
    using Cons.prems by (rule Cons.IH)
  finally show ?case by simp
qed

lemma word64_of_nat_less:
  "a < 2 ^ 64 \<Longrightarrow> b < 2 ^ 64 \<Longrightarrow> (of_nat a :: 64 word) < of_nat b \<longleftrightarrow> a < b"
  by (simp add: word_of_nat_less_iff take_bit_nat_eq_self)

lemma byte_of_nat_less:
  "a < 256 \<Longrightarrow> b < 256 \<Longrightarrow> (of_nat a :: byte) < of_nat b \<longleftrightarrow> a < b"
  by (simp add: word_of_nat_less_iff take_bit_nat_eq_self)

lemma maxUint64_numeral: "maxUint64 = (0xFFFFFFFFFFFFFFFF :: 64 word)"
  by (simp add: maxUint64_def)

lemma cutoff_16: "maxUint64 div word_of_int 16 + 1 = (0x1000000000000000 :: 64 word)"
  by (simp add: maxUint64_numeral)

lemma cutoff_8: "maxUint64 div word_of_int 8 + 1 = (0x2000000000000000 :: 64 word)"
  by (simp add: maxUint64_numeral)

lemma cutoff_10: "maxUint64 div word_of_int 10 + 1 = (1844674407370955162 :: 64 word)"
  by (simp add: maxUint64_numeral)

lemma digits_loop_accepts:
  assumes "b = 8 \<or> b = 10 \<or> b = 16"
    and "\<forall>c \<in> set ds. hex_digit c \<and> digit_value c < b"
    and "foldl (\<lambda>n c. n * b + digit_value c) k ds < 65536"
  shows "digits_loop str base0 (int b) (maxUint64 div word_of_int (int b) + 1) 0xFFFF
           (map of_char ds) (of_nat k) False
         = (of_nat (foldl (\<lambda>n c. n * b + digit_value c) k ds), None)"
  using assms(2,3)
proof (induction ds arbitrary: k)
  case Nil
  then show ?case by simp
next
  case (Cons c ds)
  let ?k' = "k * b + digit_value c"
  let ?V = "foldl (\<lambda>n c. n * b + digit_value c) ?k' ds"
  from assms(1) have b0: "0 < b" by auto
  have hc: "hex_digit c" and dv: "digit_value c < b"
    using Cons.prems(1) by simp_all
  have V: "?V < 65536"
    using Cons.prems(2) by simp
  have k': "?k' \<le> ?V"
    using b0 by (rule foldl_digits_ge)
  have kk: "k \<le> ?k'"
    using b0 by (cases b) simp_all
  have kb: "k * b \<le> ?k'"
    by simp
  have small: "k < 65536" "?k' < 65536" "k * b < 65536"
    using V k' kk kb by linarith+
  have cut: "\<not> (of_nat k :: 64 word) \<ge> maxUint64 div word_of_int (int b) + 1"
  proof -
    have "unat (of_nat k :: 64 word) = k"
      using small(1) by (simp add: unat_of_nat)
    then have "(of_nat k :: 64 word) < 0x1000000000000000"
      and "(of_nat k :: 64 word) < 1844674407370955162"
      and "(of_nat k :: 64 word) < 0x2000000000000000"
      using small(1) by (simp_all add: word_less_nat_alt)
    then show ?thesis
      using assms(1) cutoff_16 cutoff_10 cutoff_8 by (auto simp: not_le)
  qed
  have dlt: "\<not> (of_nat (digit_value c) :: byte) \<ge> word_of_int (int b)"
  proof -
    have "(of_nat (digit_value c) :: byte) < of_nat b"
      using dv assms(1) by (subst byte_of_nat_less) auto
    then show ?thesis
      by (simp add: not_le)
  qed
  have uc: "(ucast (of_nat (digit_value c) :: byte) :: 64 word) = of_nat (digit_value c)"
  proof -
    have "digit_value c < 256"
      using hex_digit_byte(3) [OF hc] by simp
    then show ?thesis
      by (simp add: unsigned_of_nat take_bit_nat_eq_self)
  qed
  have n1: "(of_nat k :: 64 word) * of_nat b + of_nat (digit_value c) = of_nat ?k'"
    by simp
  have ovf: "\<not> (of_nat ?k' :: 64 word) < of_nat k * of_nat b"
  proof -
    have "\<not> (of_nat ?k' :: 64 word) < of_nat (k * b)"
      using small by (subst word64_of_nat_less) simp_all
    then show ?thesis by simp
  qed
  have rng: "\<not> (of_nat ?k' :: 64 word) > 0xFFFF"
  proof -
    have "unat (of_nat ?k' :: 64 word) = ?k'"
      using small(2) by (simp only: unat_of_nat) simp
    then show ?thesis
      using small(2) by (simp add: word_less_nat_alt)
  qed
  have IH: "digits_loop str base0 (int b) (maxUint64 div word_of_int (int b) + 1) 0xFFFF
           (map of_char ds) (of_nat ?k') False = (of_nat ?V, None)"
    using Cons.prems(1) V by (intro Cons.IH) simp_all
  have step: "digits_loop str base0 (int b) (maxUint64 div word_of_int (int b) + 1) 0xFFFF
           (of_char c # map of_char ds) (of_nat k) False
         = digits_loop str base0 (int b) (maxUint64 div word_of_int (int b) + 1) 0xFFFF
           (map of_char ds) (of_nat k * of_nat b + of_nat (digit_value c)) False"
    using hex_digit_byte(1) [OF hc] cut dlt ovf rng
    by (simp add: hex_digit_byte(2) [OF hc] uc n1 Let_def del: of_nat_add of_nat_mult)
  show ?case
    using step IH by (simp add: n1 del: of_nat_add of_nat_mult)
qed

lemma lower_x: "lower 0x78 = 0x78" "lower 0x78 \<noteq> 0x62" "lower 0x78 \<noteq> 0x6F"
  by (simp_all add: lower_def)

lemma maxVal_16: "push_bit (nat 16) 1 - 1 = (0xFFFF :: 64 word)"
  by simp

lemma ParseUint_hex:
  assumes "h \<noteq> []" and "\<forall>c \<in> set h. hex_digit c" and "number_value 16 h < 65536"
  shows "ParseUint (''0x'' @ h) 0 16 = (of_nat (number_value 16 h), None)"
proof -
  from assms(1) obtain c cs where h: "h = c # cs"
    by (cases h) auto
  have bp: "base_prefix (map of_char (''0x'' @ h)) = (16, map of_char h)"
    by (simp add: h lower_x)
  have dl: "digits_loop (''0x'' @ h) True (int 16) (maxUint64 div word_of_int (int 16) + 1) 0xFFFF
              (map of_char h) (of_nat 0) False
            = (of_nat (foldl (\<lambda>n c. n * 16 + digit_value c) 0 h), None)"
    using assms(2,3) hex_digit_byte(3)
    by (intro digits_loop_accepts) (auto simp: number_value_def)
  show ?thesis
    unfolding ParseUint_def bp
    using dl by (simp add: number_value_def)
qed

lemma base_prefix_decimal:
  assumes "c0 \<noteq> 0x30"
  shows "base_prefix (c0 # cs) = (10, c0 # cs)"
proof (cases cs)
  case Nil
  with assms show ?thesis by simp
next
  case (Cons c1 cs1)
  with assms show ?thesis by (cases cs1) simp_all
qed

lemma ParseUint_dec:
  assumes "s \<noteq> []" and "\<forall>c \<in> set s. dec_digit c" and "hd s \<noteq> CHR ''0''"
    and "number_value 10 s < 65536"
  shows "ParseUint s 0 16 = (of_nat (number_value 10 s), None)"
proof -
  from assms(1) obtain c cs where s: "s = c # cs"
    by (cases s) auto
  with assms(2,3) have "(of_char c :: byte) \<noteq> 0x30"
    using dec_digit_hex(3) by simp
  then have bp: "base_prefix (map of_char s) = (10, map of_char s)"
    by (simp add: s base_prefix_decimal)
  have dl: "digits_loop s True (int 10) (maxUint64 div word_of_int (int 10) + 1) 0xFFFF
              (map of_char s) (of_nat 0) False
            = (of_nat (foldl (\<lambda>n c. n * 10 + digit_value c) 0 s), None)"
    using assms(2,4) dec_digit_hex(1,2)
    by (intro digits_loop_accepts) (auto simp: number_value_def)
  show ?thesis
    unfolding ParseUint_def bp
    using dl assms(1) by (simp add: number_value_def)
qed

lemma Replace_1_absent: "old \<notin> set s \<Longrightarrow> Replace_1 s old new = s"
  by (induction s) auto

lemma ucast_value_16:
  "n < 65536 \<Longrightarrow> (ucast (of_nat n :: 64 word) :: uint16) = of_nat n"
  by (simp add: unsigned_of_nat take_bit_nat_eq_self)

lemma parseUint16_numeric:
  assumes "s \<noteq> ''.''" and "addressesFor (symbols d) s = []"
  shows "parseUint16 d s =
           (ucast (fst (ParseUint (Replace_1 s CHR ''$'' ''0x'') 0 16)),
            snd (ParseUint (Replace_1 s CHR ''$'' ''0x'') 0 16))"
  using assms by (simp add: parseUint16_def Let_def split: prod.splits)

lemma parseUint16_hex:
  assumes "addressesFor (symbols d) s = []" and "s = CHR ''$'' # h \<or> s = ''0x'' @ h"
    and "h \<noteq> []" and "\<forall>c \<in> set h. hex_digit c" and "number_value 16 h < 65536"
  shows "parseUint16 d s = (of_nat (number_value 16 h), None)"
proof -
  have nodollar: "CHR ''$'' \<notin> set h"
    using assms(4) hex_digit_byte(4) by blast
  have "Replace_1 s CHR ''$'' ''0x'' = ''0x'' @ h"
    using assms(2) nodollar by (auto simp: Replace_1_absent)
  moreover have "s \<noteq> ''.''"
    using assms(2,3) by auto
  ultimately show ?thesis
    using parseUint16_numeric [OF _ assms(1)] ParseUint_hex [OF assms(3,4,5)] assms(5)
    by (simp add: ucast_value_16)
qed

lemma parseUint16_dec:
  assumes "addressesFor (symbols d) s = []"
    and "s \<noteq> []" and "\<forall>c \<in> set s. dec_digit c" and "hd s \<noteq> CHR ''0''"
    and "number_value 10 s < 65536"
  shows "parseUint16 d s = (of_nat (number_value 10 s), None)"
proof -
  have "c \<noteq> CHR ''$''" if "c \<in> set s" for c
  proof -
    from that assms(3) have "dec_digit c"
      by simp
    then have "hex_digit c"
      by (rule dec_digit_hex(1))
    then show ?thesis
      by (rule hex_digit_byte(4))
  qed
  then have "CHR ''$'' \<notin> set s"
    by blast
  then have r: "Replace_1 s CHR ''$'' ''0x'' = s"
    by (rule Replace_1_absent)
  have nodot: "s \<noteq> ''.''"
  proof
    assume "s = ''.''"
    with assms(3) have "dec_digit CHR ''.''"
      by simp
    then show False
      by (simp add: dec_digit_def)
  qed
  have "parseUint16 d s = (ucast (fst (ParseUint s 0 16)), snd (ParseUint s 0 16))"
    using parseUint16_numeric [OF nodot assms(1)] by (simp only: r)
  also have "ParseUint s 0 16 = (of_nat (number_value 10 s), None)"
    using assms(2,3,4,5) by (rule ParseUint_dec)
  finally show ?thesis
    using assms(5) by (simp add: ucast_value_16)
qed

lemma base_prefix_octal:
  assumes "\<forall>c \<in> set t. dec_digit c"
  shows "base_prefix (0x30 # map of_char t) = (8, map of_char t)"
proof (cases t)
  case Nil
  then show ?thesis by simp
next
  case (Cons c1 t1)
  with assms have "dec_digit c1"
    by simp
  note l = dec_digit_lower(1,2,3) [OF this]
  show ?thesis
    using Cons l by (cases t1) simp_all
qed

lemma ParseUint_oct:
  assumes "\<forall>c \<in> set t. oct_digit c" and "number_value 8 t < 65536"
  shows "ParseUint (CHR ''0'' # t) 0 16 = (of_nat (number_value 8 t), None)"
proof -
  have dec: "\<forall>c \<in> set t. dec_digit c"
    using assms(1) oct_digit_dec(1) by blast
  have z: "(of_char CHR ''0'' :: byte) = 0x30"
    by simp
  have bp: "base_prefix (map of_char (CHR ''0'' # t)) = (8, map of_char t)"
    using base_prefix_octal [OF dec] by (simp only: list.map z)
  have hexes: "\<forall>c \<in> set t. hex_digit c \<and> digit_value c < 8"
    using assms(1) oct_digit_dec dec_digit_hex(1) by blast
  have dl: "digits_loop (CHR ''0'' # t) True (int 8) (maxUint64 div word_of_int (int 8) + 1)
              0xFFFF (map of_char t) (of_nat 0) False
            = (of_nat (foldl (\<lambda>n c. n * 8 + digit_value c) 0 t), None)"
    using hexes assms(2)
    by (intro digits_loop_accepts) (simp_all add: number_value_def)
  show ?thesis
    unfolding ParseUint_def bp
    using dl by (simp add: number_value_def)
qed

lemma digits_loop_rejects:
  assumes "\<forall>c \<in> set ds. dec_digit c" and "\<exists>c \<in> set ds. 8 \<le> digit_value c"
  shows "snd (digits_loop str base0 8 cutoff maxVal (map of_char ds) n u) \<noteq> None"
  using assms
proof (induction ds arbitrary: n u)
  case Nil
  then show ?case by simp
next
  case (Cons c ds)
  have dc: "dec_digit c"
    using Cons.prems(1) by simp
  then have hc: "hex_digit c"
    by (rule dec_digit_hex(1))
  note dig = hex_digit_byte(1,2) [OF hc]
  have small: "digit_value c < 256"
    using dec_digit_hex(2) [OF dc] by simp
  show ?case
  proof (cases "8 \<le> digit_value c")
    case True
    have "\<not> (of_nat (digit_value c) :: byte) < of_nat 8"
      using True small by (subst byte_of_nat_less) simp_all
    then have "(of_nat (digit_value c) :: byte) \<ge> word_of_int 8"
      by (simp add: not_less)
    then show ?thesis
      using dig by simp
  next
    case False
    with Cons.prems have tl: "\<forall>c \<in> set ds. dec_digit c" "\<exists>c \<in> set ds. 8 \<le> digit_value c"
      by auto
    have IH: "snd (digits_loop str base0 8 cutoff maxVal (map of_char ds) m u) \<noteq> None" for m
      using tl by (rule Cons.IH)
    show ?thesis
      using dig IH by (simp add: Let_def)
  qed
qed

lemma ParseUint_leading_zero_rejects:
  assumes "\<forall>c \<in> set t. dec_digit c" and "\<exists>c \<in> set t. 8 \<le> digit_value c"
  shows "snd (ParseUint (CHR ''0'' # t) 0 16) \<noteq> None"
proof -
  have z: "(of_char CHR ''0'' :: byte) = 0x30"
    by simp
  have bp: "base_prefix (map of_char (CHR ''0'' # t)) = (8, map of_char t)"
    using base_prefix_octal [OF assms(1)] by (simp only: list.map z)
  show ?thesis
    unfolding ParseUint_def bp
    using digits_loop_rejects [OF assms] by simp
qed

lemma parseUint16_oct:
  assumes "addressesFor (symbols d) s = []" and "s = CHR ''0'' # t"
    and "\<forall>c \<in> set t. oct_digit c" and "number_value 8 t < 65536"
  shows "parseUint16 d s = (of_nat (number_value 8 t), None)"
proof -
  have zero: "oct_digit CHR ''0''"
    by (simp add: oct_digit_def)
  have "c \<noteq> CHR ''$''" if "c \<in> set s" for c
  proof -
    from that assms(2) have "c = CHR ''0'' \<or> c \<in> set t"
      by simp
    with zero assms(3) have "oct_digit c"
      by blast
    then have "hex_digit c"
      using oct_digit_dec(1) dec_digit_hex(1) by blast
    then show ?thesis
      by (rule hex_digit_byte(4))
  qed
  then have "CHR ''$'' \<notin> set s"
    by blast
  then have r: "Replace_1 s CHR ''$'' ''0x'' = s"
    by (rule Replace_1_absent)
  have nodot: "s \<noteq> ''.''"
    using assms(2) by simp
  have "parseUint16 d s = (ucast (fst (ParseUint s 0 16)), snd (ParseUint s 0 16))"
    using parseUint16_numeric [OF nodot assms(1)] by (simp only: r)
  also have "ParseUint s 0 16 = (of_nat (number_value 8 t), None)"
    unfolding assms(2) using assms(3,4) by (rule ParseUint_oct)
  finally show ?thesis
    using assms(4) by (simp add: ucast_value_16)
qed

lemma parseUint16_leading_zero_rejects:
  assumes "addressesFor (symbols d) s = []" and "s = CHR ''0'' # t"
    and "\<forall>c \<in> set t. dec_digit c" and "\<exists>c \<in> set t. 8 \<le> digit_value c"
  shows "snd (parseUint16 d s) \<noteq> None"
proof -
  have zero: "dec_digit CHR ''0''"
    by (simp add: dec_digit_def)
  have "c \<noteq> CHR ''$''" if "c \<in> set s" for c
  proof -
    from that assms(2) have "c = CHR ''0'' \<or> c \<in> set t"
      by simp
    with zero assms(3) have "dec_digit c"
      by blast
    then have "hex_digit c"
      by (rule dec_digit_hex(1))
    then show ?thesis
      by (rule hex_digit_byte(4))
  qed
  then have "CHR ''$'' \<notin> set s"
    by blast
  then have r: "Replace_1 s CHR ''$'' ''0x'' = s"
    by (rule Replace_1_absent)
  have nodot: "s \<noteq> ''.''"
    using assms(2) by simp
  have p: "parseUint16 d s = (ucast (fst (ParseUint s 0 16)), snd (ParseUint s 0 16))"
    using parseUint16_numeric [OF nodot assms(1)] by (simp only: r)
  have "snd (ParseUint s 0 16) \<noteq> None"
    unfolding assms(2) using assms(3,4) by (rule ParseUint_leading_zero_rejects)
  with p show ?thesis
    by simp
qed

text \<open>
  C8 (as amended). Parsing a string as a 16-bit address: the literal \<open>.\<close> gives the current
  \<open>PC\<close>; any other string that the symbol table resolves to exactly one address gives that
  address; one that resolves to more than one address gives an error and the value 0 (no
  address is picked); one that resolves to none goes to numeric parsing (\<^verbatim>\<open>ParseUint\<close> with
  base 0 and 16 bits, after the first \<open>$\<close> is replaced by \<open>0x\<close>). Numeric parsing accepts \<open>$\<close>
  or \<open>0x\<close> followed by hex digits, and decimal digits that do not start with 0, of value
  below 65536, and yields that value. Digits that start with 0 are not read as decimal: 0
  followed by octal digits yields their value in base 8, and 0 followed by digits among
  which is an 8 or a 9 is an error.
\<close>

theorem C8_parse_address:
  "parseUint16 d ''.'' = (PC (cpu d), None)
   \<and> (s \<noteq> ''.'' \<and> addressesFor (symbols d) s = [a] \<longrightarrow> parseUint16 d s = (a, None))
   \<and> (s \<noteq> ''.'' \<and> length (addressesFor (symbols d) s) > 1 \<longrightarrow>
        parseUint16 d s = (0, Some (Multiple_addresses s (addressesFor (symbols d) s))))
   \<and> (s \<noteq> ''.'' \<and> addressesFor (symbols d) s = [] \<longrightarrow>
        parseUint16 d s =
          (ucast (fst (ParseUint (Replace_1 s CHR ''$'' ''0x'') 0 16)),
           snd (ParseUint (Replace_1 s CHR ''$'' ''0x'') 0 16)))
   \<and> (addressesFor (symbols d) s = [] \<and> (s = CHR ''$'' # h \<or> s = ''0x'' @ h)
        \<and> h \<noteq> [] \<and> (\<forall>c \<in> set h. hex_digit c) \<and> number_value 16 h < 65536 \<longrightarrow>
        parseUint16 d s = (of_nat (number_value 16 h), None))
   \<and> (addressesFor (symbols d) s = [] \<and> s \<noteq> [] \<and> (\<forall>c \<in> set s. dec_digit c)
        \<and> hd s \<noteq> CHR ''0'' \<and> number_value 10 s < 65536 \<longrightarrow>
        parseUint16 d s = (of_nat (number_value 10 s), None))
   \<and> (addressesFor (symbols d) s = [] \<and> s = CHR ''0'' # t
        \<and> (\<forall>c \<in> set t. oct_digit c) \<and> number_value 8 t < 65536 \<longrightarrow>
        parseUint16 d s = (of_nat (number_value 8 t), None))
   \<and> (addressesFor (symbols d) s = [] \<and> s = CHR ''0'' # t
        \<and> (\<forall>c \<in> set t. dec_digit c) \<and> (\<exists>c \<in> set t. 8 \<le> digit_value c) \<longrightarrow>
        snd (parseUint16 d s) \<noteq> None)"
proof -
  have dot: "parseUint16 d ''.'' = (PC (cpu d), None)"
    by (simp add: parseUint16_def)
  have one: "parseUint16 d s = (a, None)"
    if "s \<noteq> ''.''" "addressesFor (symbols d) s = [a]"
    using that by (simp add: parseUint16_def Let_def)
  have many: "parseUint16 d s = (0, Some (Multiple_addresses s (addressesFor (symbols d) s)))"
    if "s \<noteq> ''.''" "length (addressesFor (symbols d) s) > 1"
    using that by (simp add: parseUint16_def Let_def)
  have num: "parseUint16 d s =
          (ucast (fst (ParseUint (Replace_1 s CHR ''$'' ''0x'') 0 16)),
           snd (ParseUint (Replace_1 s CHR ''$'' ''0x'') 0 16))"
    if "s \<noteq> ''.''" "addressesFor (symbols d) s = []"
    using that by (rule parseUint16_numeric)
  have hex: "parseUint16 d s = (of_nat (number_value 16 h), None)"
    if "addressesFor (symbols d) s = []" "s = CHR ''$'' # h \<or> s = ''0x'' @ h"
      "h \<noteq> []" "\<forall>c \<in> set h. hex_digit c" "number_value 16 h < 65536"
    using that by (rule parseUint16_hex)
  have dec: "parseUint16 d s = (of_nat (number_value 10 s), None)"
    if "addressesFor (symbols d) s = []" "s \<noteq> []" "\<forall>c \<in> set s. dec_digit c"
      "hd s \<noteq> CHR ''0''" "number_value 10 s < 65536"
    using that by (rule parseUint16_dec)
  have oct: "parseUint16 d s = (of_nat (number_value 8 t), None)"
    if "addressesFor (symbols d) s = []" "s = CHR ''0'' # t"
      "\<forall>c \<in> set t. oct_digit c" "number_value 8 t < 65536"
    using that by (rule parseUint16_oct)
  have rej: "snd (parseUint16 d s) \<noteq> None"
    if "addressesFor (symbols d) s = []" "s = CHR ''0'' # t"
      "\<forall>c \<in> set t. dec_digit c" "\<exists>c \<in> set t. 8 \<le> digit_value c"
    using that by (rule parseUint16_leading_zero_rejects)
  show ?thesis
    apply (rule conjI, rule dot)
    apply (rule conjI, rule impI, elim conjE, erule (1) one)
    apply (rule conjI, rule impI, elim conjE, erule (1) many)
    apply (rule conjI, rule impI, elim conjE, erule (1) num)
    apply (rule conjI, rule impI, elim conjE, erule (4) hex)
    apply (rule conjI, rule impI, elim conjE, erule (4) dec)
    apply (rule conjI, rule impI, elim conjE, erule (3) oct)
    apply (rule impI, elim conjE, erule (3) rej)
    done
qed

theorem C8_parse_address_witness:
  "parseUint16 (example_debugger []) ''.'' = (0xF31F, None)
   \<and> parseUint16 (example_debugger []) ''start'' = (0x1000, None)
   \<and> parseUint16 (example_debugger []) ''loop''
       = (0, Some (Multiple_addresses ''loop'' [0x2000, 0x3000]))
   \<and> parseUint16 (example_debugger []) ''$F31F'' = (0xF31F, None)
   \<and> parseUint16 (example_debugger []) ''0x1000'' = (0x1000, None)
   \<and> parseUint16 (example_debugger []) ''4096'' = (4096, None)
   \<and> parseUint16 (example_debugger []) ''0'' = (0, None)
   \<and> parseUint16 (example_debugger []) ''017'' = (15, None)
   \<and> snd (parseUint16 (example_debugger []) ''09'') \<noteq> None"
proof -
  let ?d = "example_debugger []"
  have sy: "addressesFor (symbols ?d) = addressesFor example_symbols"
    and pc: "PC (cpu ?d) = 0xF31F"
    by (simp_all add: example_debugger_def QueueCommands_def NewDebugger_def example_cpu_def)
  have a_start: "addressesFor (symbols ?d) ''start'' = [0x1000]"
    and a_loop: "addressesFor (symbols ?d) ''loop'' = [0x2000, 0x3000]"
    and a_hex1: "addressesFor (symbols ?d) ''$F31F'' = []"
    and a_hex2: "addressesFor (symbols ?d) ''0x1000'' = []"
    and a_dec: "addressesFor (symbols ?d) ''4096'' = []"
    and a_zero: "addressesFor (symbols ?d) ''0'' = []"
    and a_oct: "addressesFor (symbols ?d) ''017'' = []"
    and a_bad: "addressesFor (symbols ?d) ''09'' = []"
    by (simp_all add: sy example_symbols_def)
  have h1: "\<forall>c \<in> set ''F31F''. hex_digit c" and h2: "\<forall>c \<in> set ''1000''. hex_digit c"
    and h3: "\<forall>c \<in> set ''4096''. dec_digit c"
    and h4: "\<forall>c \<in> set ''17''. oct_digit c"
    and h5: "\<forall>c \<in> set ''9''. dec_digit c"
    by (simp_all add: hex_digit_def dec_digit_def oct_digit_def)
  have h6: "\<exists>c \<in> set ''9''. 8 \<le> digit_value c"
    by (simp add: digit_value_def)
  have v1: "number_value 16 ''F31F'' = 62239" and v2: "number_value 16 ''1000'' = 4096"
    and v3: "number_value 10 ''4096'' = 4096" and v4: "number_value 8 ''17'' = 15"
    and v5: "number_value 8 [] = 0"
    by (simp_all add: number_value_def digit_value_def)
  have "parseUint16 ?d ''.'' = (0xF31F, None)"
    using C8_parse_address [where d = ?d, THEN conjunct1]
      pc
    by simp
  moreover have "parseUint16 ?d ''start'' = (0x1000, None)"
    using C8_parse_address [where d = ?d and s = "''start''" and a = "0x1000",
        THEN conjunct2, THEN conjunct1]
      a_start
    by simp
  moreover have "parseUint16 ?d ''loop'' = (0, Some (Multiple_addresses ''loop'' [0x2000, 0x3000]))"
    using C8_parse_address [where d = ?d and s = "''loop''",
        THEN conjunct2, THEN conjunct2, THEN conjunct1]
      a_loop
    by simp
  moreover have "parseUint16 ?d ''$F31F'' = (0xF31F, None)"
    using C8_parse_address [where d = ?d and s = "''$F31F''" and h = "''F31F''",
        THEN conjunct2, THEN conjunct2, THEN conjunct2, THEN conjunct2, THEN conjunct1]
      a_hex1 h1 v1
    by simp
  moreover have "parseUint16 ?d ''0x1000'' = (0x1000, None)"
    using C8_parse_address [where d = ?d and s = "''0x1000''" and h = "''1000''",
        THEN conjunct2, THEN conjunct2, THEN conjunct2, THEN conjunct2, THEN conjunct1]
      a_hex2 h2 v2
    by simp
  moreover have "parseUint16 ?d ''4096'' = (4096, None)"
    using C8_parse_address [where d = ?d and s = "''4096''",
        THEN conjunct2, THEN conjunct2, THEN conjunct2, THEN conjunct2, THEN conjunct2,
        THEN conjunct1]
      a_dec h3 v3
    by simp
  moreover have "parseUint16 ?d ''0'' = (0, None)"
    using C8_parse_address [where d = ?d and s = "''0''" and t = "[]",
        THEN conjunct2, THEN conjunct2, THEN conjunct2, THEN conjunct2, THEN conjunct2,
        THEN conjunct2, THEN conjunct1]
      a_zero v5
    by simp
  moreover have "parseUint16 ?d ''017'' = (15, None)"
    using C8_parse_address [where d = ?d and s = "''017''" and t = "''17''",
        THEN conjunct2, THEN conjunct2, THEN conjunct2, THEN conjunct2, THEN conjunct2,
        THEN conjunct2, THEN conjunct1]
      a_oct h4 v4
    by simp
  moreover have "snd (parseUint16 ?d ''09'') \<noteq> None"
    using C8_parse_address [where d = ?d and s = "''09''" and t = "''9''",
        THEN conjunct2, THEN conjunct2, THEN conjunct2, THEN conjunct2, THEN conjunct2,
        THEN conjunct2, THEN conjunct2]
      a_bad h5 h6
    by simp
  ultimately show ?thesis
    by simp
qed

text \<open>
  C8 as stated fails on decimal digits that start with 0: \<open>010\<close>, ten in decimal, is parsed
  as 8, and \<open>09\<close> is not accepted; given to \<open>break-address\<close> it ends the hook with a panic.
\<close>

theorem C8_parse_address_counterexample:
  "number_value 10 ''010'' = 10
   \<and> parseUint16 (example_debugger []) ''010'' = (8, None)
   \<and> parseUint16 (example_debugger []) ''09'' = (0, Some (Err_syntax ''09''))
   \<and> panic_of (BeforeExecute example_jsr (example_debugger [''ba 09'', ''step'']))
       = Some (Panic_error (Err_syntax ''09''))"
  by code_simp

subsection \<open>Input errors\<close>

lemma getCommand_lastCmd:
  "getCommand d = Inr (c, d1) \<Longrightarrow> lastCmd d1 = Some c"
  by (auto simp: getCommand_def readInput_def println_def Let_def
      split: list.splits option.splits sum.splits if_splits)

lemma parseUint8_any: "parseUint8 d s = parseUint8 d' s"
  by (simp add: parseUint8_def)

lemma commandBreakAddress_panics:
  "cmd_arguments c = a # rest \<Longrightarrow> parseUint16 d a = (v, Some e)
     \<Longrightarrow> commandBreakAddress c d = Inl (Panic_error e)"
  by (simp add: commandBreakAddress_def)

lemma commandRead_panics:
  "cmd_arguments c = a # rest \<Longrightarrow> parseUint16 d a = (v, Some e)
     \<Longrightarrow> commandRead c d = Inl (Panic_error e)"
  by (simp add: commandRead_def)

lemma commandRead16_panics:
  "cmd_arguments c = a # rest \<Longrightarrow> parseUint16 d a = (v, Some e)
     \<Longrightarrow> commandRead16 c d = Inl (Panic_error e)"
  by (simp add: commandRead16_def)

lemma commandRead32_panics:
  "cmd_arguments c = a # rest \<Longrightarrow> parseUint16 d a = (v, Some e)
     \<Longrightarrow> commandRead32 c d = Inl (Panic_error e)"
  by (simp add: commandRead32_def)

lemma commandBreakRegister_panics:
  assumes "cmd_arguments c = r # a # rest"
    and "r \<in> set [''A'', ''a'', ''AC'', ''ac'', ''X'', ''x'', ''Y'', ''y'']"
    and "parseUint8 d a = (v, Some e)"
  shows "commandBreakRegister c d = Inl (Panic_error e)"
proof -
  have p: "parseUint8 d' a = (v, Some e)" for d'
    using assms(3) parseUint8_any [of d' a d] by simp
  from assms(2) consider "r \<in> set [''A'', ''a'', ''AC'', ''ac'']"
    | "r \<notin> set [''A'', ''a'', ''AC'', ''ac'']" "r \<in> set [''X'', ''x'']"
    | "r \<notin> set [''A'', ''a'', ''AC'', ''ac'']" "r \<notin> set [''X'', ''x'']" "r \<in> set [''Y'', ''y'']"
    by auto
  then show ?thesis
  proof cases
    case 1
    then show ?thesis
      unfolding commandBreakRegister_def assms(1) by (simp only: list.case if_True option.case prod.case p)
  next
    case 2
    then show ?thesis
      unfolding commandBreakRegister_def assms(1) by (simp only: list.case if_True if_False option.case prod.case p)
  next
    case 3
    then show ?thesis
      unfolding commandBreakRegister_def assms(1) by (simp only: list.case if_True if_False option.case prod.case p)
  qed
qed

lemma commandLoop_until_release_panics:
  "commandLoop inst d = Inl p \<Longrightarrow> commandLoop_until_release inst d = Inl p"
  by (subst commandLoop_until_release.simps) simp

lemma commandLoop_until_release_again:
  "commandLoop inst d = Inr (d', False) \<Longrightarrow> commandLoop_until_release inst d = commandLoop_until_release inst d'"
  by (subst commandLoop_until_release.simps) simp

lemma commandLoop_invalid:
  assumes "getCommand d = Inr (c, d1)" and "cmd_id c = debugCmdInvalid"
  shows "commandLoop inst d = Inr (println Invalid_command d1, False)"
  using assms by (simp add: commandLoop_def debugCmd_defs)

lemma commandLoop_parse16_panics:
  assumes "getCommand d = Inr (c, d1)"
    and "cmd_id c \<in> {debugCmdBreakAddress, debugCmdRead, debugCmdRead16, debugCmdRead32}"
    and "cmd_arguments c = a # rest" and "parseUint16 d1 a = (v, Some e)"
  shows "commandLoop inst d = Inl (Panic_error e)"
  using assms(1,2)
    commandBreakAddress_panics [OF assms(3,4)] commandRead_panics [OF assms(3,4)]
    commandRead16_panics [OF assms(3,4)] commandRead32_panics [OF assms(3,4)]
  by (auto simp: commandLoop_def debugCmd_defs no_release_def)

lemma commandLoop_parse8_panics:
  assumes "getCommand d = Inr (c, d1)" and "cmd_id c = debugCmdBreakRegister"
    and "cmd_arguments c = r # a # rest"
    and "r \<in> set [''A'', ''a'', ''AC'', ''ac'', ''X'', ''x'', ''Y'', ''y'']"
    and "parseUint8 d1 a = (v, Some e)"
  shows "commandLoop inst d = Inl (Panic_error e)"
  using assms(1,2) commandBreakRegister_panics [OF assms(3,4,5)]
  by (simp add: commandLoop_def debugCmd_defs no_release_def)

text \<open>
  C2 (as amended). Of the debugger's input errors only the unknown command is recovered:
  \<open>Invalid command.\<close> is printed, the command loop goes on to the next command, and the CPU,
  the free-run flag, the breakpoints and the symbols are as before (the command is recorded
  as the last command). An argument that does not parse as a number, or a symbol with more
  than one address, given to \<open>break-address\<close>, \<open>read\<close>, \<open>read16\<close> or \<open>read32\<close>, or as the value to
  \<open>break-register\<close>, is not recovered: the handler panics with the parse error and the panic
  leaves the command loop.
\<close>

theorem C2_input_errors:
  assumes "getCommand d = Inr (c, d1)"
  shows "(cmd_id c = debugCmdInvalid \<longrightarrow>
            commandLoop inst d = Inr (println Invalid_command d1, False)
            \<and> commandLoop_until_release inst d = commandLoop_until_release inst (println Invalid_command d1)
            \<and> stdout (println Invalid_command d1) = stdout d1 @ [Invalid_command]
            \<and> cpu (println Invalid_command d1) = cpu d
            \<and> run (println Invalid_command d1) = run d
            \<and> breakpoints (println Invalid_command d1) = breakpoints d
            \<and> symbols (println Invalid_command d1) = symbols d
            \<and> lastCmd (println Invalid_command d1) = Some c)
         \<and> (cmd_id c \<in> {debugCmdBreakAddress, debugCmdRead, debugCmdRead16, debugCmdRead32}
              \<and> cmd_arguments c = a # rest \<and> parseUint16 d1 a = (v, Some e) \<longrightarrow>
            commandLoop inst d = Inl (Panic_error e)
            \<and> commandLoop_until_release inst d = Inl (Panic_error e))
         \<and> (cmd_id c = debugCmdBreakRegister \<and> cmd_arguments c = r # valueStr # others
              \<and> r \<in> set [''A'', ''a'', ''AC'', ''ac'', ''X'', ''x'', ''Y'', ''y'']
              \<and> parseUint8 d1 valueStr = (u, Some err) \<longrightarrow>
            commandLoop inst d = Inl (Panic_error err)
            \<and> commandLoop_until_release inst d = Inl (Panic_error err))
         \<and> (s \<noteq> ''.'' \<and> length (addressesFor (symbols d1) s) > 1 \<longrightarrow>
            parseUint16 d1 s = (0, Some (Multiple_addresses s (addressesFor (symbols d1) s))))"
proof -
  have inv: "commandLoop inst d = Inr (println Invalid_command d1, False)
            \<and> commandLoop_until_release inst d = commandLoop_until_release inst (println Invalid_command d1)
            \<and> stdout (println Invalid_command d1) = stdout d1 @ [Invalid_command]
            \<and> cpu (println Invalid_command d1) = cpu d
            \<and> run (println Invalid_command d1) = run d
            \<and> breakpoints (println Invalid_command d1) = breakpoints d
            \<and> symbols (println Invalid_command d1) = symbols d
            \<and> lastCmd (println Invalid_command d1) = Some c"
    if "cmd_id c = debugCmdInvalid"
  proof -
    have cl: "commandLoop inst d = Inr (println Invalid_command d1, False)"
      using assms that by (rule commandLoop_invalid)
    then have "commandLoop_until_release inst d = commandLoop_until_release inst (println Invalid_command d1)"
      by (rule commandLoop_until_release_again)
    with cl show ?thesis
      using getCommand_frame [OF assms] getCommand_lastCmd [OF assms]
      by (simp add: println_def breakpoints_def)
  qed
  have p16: "commandLoop inst d = Inl (Panic_error e)
            \<and> commandLoop_until_release inst d = Inl (Panic_error e)"
    if "cmd_id c \<in> {debugCmdBreakAddress, debugCmdRead, debugCmdRead16, debugCmdRead32}"
      "cmd_arguments c = a # rest" "parseUint16 d1 a = (v, Some e)"
    using commandLoop_parse16_panics [OF assms that] commandLoop_until_release_panics by blast
  have p8: "commandLoop inst d = Inl (Panic_error err)
            \<and> commandLoop_until_release inst d = Inl (Panic_error err)"
    if "cmd_id c = debugCmdBreakRegister" "cmd_arguments c = r # valueStr # others"
      "r \<in> set [''A'', ''a'', ''AC'', ''ac'', ''X'', ''x'', ''Y'', ''y'']"
      "parseUint8 d1 valueStr = (u, Some err)"
    using commandLoop_parse8_panics [OF assms that] commandLoop_until_release_panics by blast
  have amb: "parseUint16 d1 s = (0, Some (Multiple_addresses s (addressesFor (symbols d1) s)))"
    if "s \<noteq> ''.''" "length (addressesFor (symbols d1) s) > 1"
    using that by (simp add: parseUint16_def Let_def)
  show ?thesis
    apply (rule conjI)
     apply (rule impI, erule inv)
    apply (rule conjI)
     apply (rule impI, elim conjE, erule (2) p16)
    apply (rule conjI)
     apply (rule impI, elim conjE, erule (3) p8)
    apply (rule impI, elim conjE, erule (1) amb)
    done
qed

theorem C2_input_errors_witness:
  "(\<exists>c d1. getCommand (example_debugger [''bogus'', ''step'']) = Inr (c, d1)
       \<and> cmd_id c = debugCmdInvalid
       \<and> commandLoop example_jsr (example_debugger [''bogus'', ''step''])
           = Inr (println Invalid_command d1, False)
       \<and> cpu (println Invalid_command d1) = cpu (example_debugger [''bogus'', ''step''])
       \<and> run (println Invalid_command d1) = run (example_debugger [''bogus'', ''step''])
       \<and> breakpoints (println Invalid_command d1)
           = breakpoints (example_debugger [''bogus'', ''step'']))
   \<and> commandLoop example_jsr (example_debugger [''ba zz''])
       = Inl (Panic_error (Err_syntax ''zz''))
   \<and> commandLoop example_jsr (example_debugger [''read loop''])
       = Inl (Panic_error (Multiple_addresses ''loop'' [0x2000, 0x3000]))
   \<and> commandLoop example_jsr (example_debugger [''br x $100''])
       = Inl (Panic_error (Err_range ''0x100''))"
proof -
  have q: "inputQueue (example_debugger (l # ls)) = l # ls" for l ls
    by (simp add: example_debugger_def QueueCommands_def NewDebugger_def)
  have f: "Fields ''bogus'' = [''bogus'']" "Fields ''ba zz'' = [''ba'', ''zz'']"
    "Fields ''read loop'' = [''read'', ''loop'']" "Fields ''br x $100'' = [''br'', ''x'', ''$100'']"
    by code_simp+
  have l: "ToLower ''bogus'' = ''bogus''" "ToLower ''ba'' = ''ba''" "ToLower ''read'' = ''read''"
    "ToLower ''br'' = ''br''"
    by code_simp+
  have i: "command_id ''bogus'' = debugCmdInvalid" "command_id ''ba'' = debugCmdBreakAddress"
    "command_id ''read'' = debugCmdRead" "command_id ''br'' = debugCmdBreakRegister"
    by (simp_all add: command_id_def)
  have n: "debugCmdInvalid \<noteq> debugCmdNone" "debugCmdBreakAddress \<noteq> debugCmdNone"
    "debugCmdRead \<noteq> debugCmdNone" "debugCmdBreakRegister \<noteq> debugCmdNone"
    by (simp_all add: debugCmd_defs)
  have sy: "addressesFor (symbols (x\<lparr>lastCmd := y\<rparr>)) = addressesFor (symbols x)" for x y
    by simp
  have sy': "addressesFor (symbols (println o1 (println o2 (example_debugger ls\<lparr>inputQueue := r\<rparr>))))
             = addressesFor example_symbols" for o1 o2 ls r
    by (simp add: println_def example_debugger_def QueueCommands_def NewDebugger_def)
  note g1 = getCommand_queued [OF q [of _ "[''step'']"] f(1), unfolded l i, OF n(1)]
  note g2 = getCommand_queued [OF q [of _ "[]"] f(2), unfolded l i, OF n(2)]
  note g3 = getCommand_queued [OF q [of _ "[]"] f(3), unfolded l i, OF n(3)]
  note g4 = getCommand_queued [OF q [of _ "[]"] f(4), unfolded l i, OF n(4)]
  have zz: "ParseUint ''zz'' 0 16 = (0, Some (Err_syntax ''zz''))"
    by code_simp
  have big: "ParseUint ''0x100'' 0 8 = (255, Some (Err_range ''0x100''))"
    by code_simp
  have p2: "parseUint16 d ''zz'' = (0, Some (Err_syntax ''zz''))"
    if "addressesFor (symbols d) = addressesFor example_symbols" for d
    using that zz by (simp add: parseUint16_def Let_def example_symbols_def)
  have p3: "length (addressesFor (symbols d) ''loop'') > 1
            \<and> addressesFor (symbols d) ''loop'' = [0x2000, 0x3000]"
    if "addressesFor (symbols d) = addressesFor example_symbols" for d
    using that by (simp add: example_symbols_def)
  have p4: "parseUint8 d ''$100'' = (255, Some (Err_range ''0x100''))" for d
    using big by (simp add: parseUint8_def)
  have ci: "cmd_id \<lparr>cmd_id = debugCmdInvalid, cmd_input = ''bogus'', cmd_arguments = []\<rparr>
              = debugCmdInvalid"
    by simp
  note r1 = C2_input_errors [OF g1, where inst = example_jsr, THEN conjunct1, THEN mp, OF ci]
  have w1: "\<exists>c d1. getCommand (example_debugger [''bogus'', ''step'']) = Inr (c, d1)
       \<and> cmd_id c = debugCmdInvalid
       \<and> commandLoop example_jsr (example_debugger [''bogus'', ''step''])
           = Inr (println Invalid_command d1, False)
       \<and> cpu (println Invalid_command d1) = cpu (example_debugger [''bogus'', ''step''])
       \<and> run (println Invalid_command d1) = run (example_debugger [''bogus'', ''step''])
       \<and> breakpoints (println Invalid_command d1)
           = breakpoints (example_debugger [''bogus'', ''step''])"
    using g1 ci r1 by blast
  have w2: "commandLoop example_jsr (example_debugger [''ba zz''])
       = Inl (Panic_error (Err_syntax ''zz''))"
    using C2_input_errors [OF g2, where inst = example_jsr and a = "''zz''" and rest = "[]"
          and v = 0 and e = "Err_syntax ''zz''", THEN conjunct2, THEN conjunct1]
      p2 [OF trans [OF sy sy']]
    by simp
  have amb: "parseUint16 d ''loop'' = (0, Some (Multiple_addresses ''loop'' [0x2000, 0x3000]))"
    if "getCommand (example_debugger [''read loop'']) = Inr (c, d)" for c d
    using C2_input_errors [OF that, where s = "''loop''",
        THEN conjunct2, THEN conjunct2, THEN conjunct2]
      that g3 p3 [OF trans [OF sy sy']]
    by auto
  have w3: "commandLoop example_jsr (example_debugger [''read loop''])
       = Inl (Panic_error (Multiple_addresses ''loop'' [0x2000, 0x3000]))"
    using C2_input_errors [OF g3, where inst = example_jsr and a = "''loop''" and rest = "[]"
          and v = 0 and e = "Multiple_addresses ''loop'' [0x2000, 0x3000]",
        THEN conjunct2, THEN conjunct1]
      amb [OF g3]
    by simp
  have w4: "commandLoop example_jsr (example_debugger [''br x $100''])
       = Inl (Panic_error (Err_range ''0x100''))"
    using C2_input_errors [OF g4, where inst = example_jsr and r = "''x''" and valueStr = "''$100''"
          and others = "[]" and u = 255 and err = "Err_range ''0x100''",
        THEN conjunct2, THEN conjunct2, THEN conjunct1]
      p4
    by simp
  from w1 w2 w3 w4 show ?thesis
    by blast
qed

text \<open>
  C2 as stated fails: an unparseable number, an ambiguous symbol and a value that does not
  fit a byte each end the hook with a panic; the command queued after it is never read.
\<close>

theorem C2_input_errors_counterexample:
  "panic_of (BeforeExecute example_jsr (example_debugger [''break-address zz'', ''step'']))
     = Some (Panic_error (Err_syntax ''zz''))
   \<and> panic_of (BeforeExecute example_jsr (example_debugger [''read loop'', ''step'']))
     = Some (Panic_error (Multiple_addresses ''loop'' [0x2000, 0x3000]))
   \<and> panic_of (BeforeExecute example_jsr (example_debugger [''br x $100'', ''step'']))
     = Some (Panic_error (Err_range ''0x100''))"
  by code_simp

end
